theory Spec2Isabelle
  imports Complex_Main
begin

section \<open>Flow around a cylinder: the example script \<open>examples/CFD/cylinder2d.py\<close>\<close>

text \<open>
  The script configures a D2Q9 lattice Boltzmann run (class \<open>Cylinder\<close>, derived from the
  library's \<open>BGKSim\<close>) and post-processes what the solver hands to \<open>output_data\<close>.

  Conventions of the embedding.
  \<^item> Python floats (float64) are idealised as \<^typ>\<open>real\<close>: rounding is not modelled. A float
    operation whose float64 result is \<open>inf\<close> or \<open>nan\<close> (a division by a zero array element)
    has no real counterpart; the model stops there with the error value \<open>NonFinite\<close>,
    whereas numpy only warns and carries the non-finite value on.
  \<^item> Python exceptions are values of \<open>py_error\<close>; a fallible function returns
    \<open>py_error + 'a\<close> with \<open>Inl\<close> the exception.
  \<^item> The module-level variables \<open>diam\<close>, \<open>prescribed_vel\<close> and \<open>t_max\<close>, read by the
    methods of \<open>Cylinder\<close>, are the record \<open>globals\<close>.
  \<^item> A grid index is a pair of naturals \<open>(i, j)\<close>; a numpy array of shape \<open>(n, 2)\<close> holding
    indices is a list of such pairs, a 2D array a list of rows, a velocity field of shape
    \<open>(nx, ny, 2)\<close> a list (over \<open>i\<close>) of lists (over \<open>j\<close>) of component lists.
\<close>

datatype py_error =
    ZeroDivisionError
  | ValueError
  | IndexError
  | KeyError
  | AttributeError
  | NonFinite

type_synonym index = "nat \<times> nat"
type_synonym vec = "real list"
type_synonym field2 = "real list list"
type_synonym vfield = "vec list list"

subsection \<open>The inlet profile\<close>

text \<open>
  \<^verbatim>\<open>poiseuille_profile = lambda x,x0,d,umax: np.maximum(0.,4.*umax/(d**2)*((x-x0)*d-(x-x0)**2))\<close>

  \<open>poiseuille_value\<close> is the expression on one element of \<open>x\<close>; \<open>poiseuille_profile\<close> is the
  numpy call on an array \<open>x\<close>. For \<open>d = 0\<close> the quotient \<open>4.*umax/(d**2)\<close> is \<open>inf\<close> or \<open>nan\<close>.
\<close>

definition poiseuille_value :: "real \<Rightarrow> real \<Rightarrow> real \<Rightarrow> real \<Rightarrow> py_error + real" where
  "poiseuille_value x x0 d umax =
     (if d\<^sup>2 = 0 then Inl NonFinite
      else Inr (max 0 (4 * umax / d\<^sup>2 * ((x - x0) * d - (x - x0)\<^sup>2))))"

fun poiseuille_profile :: "real list \<Rightarrow> real \<Rightarrow> real \<Rightarrow> real \<Rightarrow> py_error + real list" where
  "poiseuille_profile [] x0 d umax = Inr []"
| "poiseuille_profile (x # xs) x0 d umax =
     (case poiseuille_value x x0 d umax of
        Inl e \<Rightarrow> Inl e
      | Inr v \<Rightarrow>
          (case poiseuille_profile xs x0 d umax of
             Inl e \<Rightarrow> Inl e
           | Inr vs \<Rightarrow> Inr (v # vs)))"

subsection \<open>The main block: parameters of one run\<close>

text \<open>
  \<open>int(x)\<close> on a float truncates toward zero.
\<close>

definition py_int :: "real \<Rightarrow> int" where
  "py_int x = (if 0 \<le> x then \<lfloor>x\<rfloor> else \<lceil>x\<rceil>)"

record globals =
  diam :: int
  prescribed_vel :: real
  t_max :: int

text \<open>
  The dictionary \<open>kwargs\<close> passed to the constructor of \<open>Cylinder\<close>. The lattice object
  (\<open>LatticeD2Q9(precision)\<close>) is represented by its name.
\<close>

record sim_kwargs =
  kw_lattice :: string
  kw_omega :: real
  kw_nx :: int
  kw_ny :: int
  kw_nz :: int
  kw_precision :: string
  kw_io_rate :: int
  kw_print_info_rate :: int
  kw_return_fpost :: bool

definition precision :: string where
  "precision = ''f64/f64''"

definition diam_list :: "int list" where
  "diam_list = [80]"

text \<open>\<open>scale_factor = 80 / diam\<close>: true division of Python ints, raising on \<open>diam = 0\<close>.\<close>

definition scale_factor :: "int \<Rightarrow> py_error + real" where
  "scale_factor d = (if d = 0 then Inl ZeroDivisionError else Inr (80 / real_of_int d))"

definition Re_number :: real where
  "Re_number = 100.0"

definition visc :: "real \<Rightarrow> int \<Rightarrow> real" where
  "visc pv d = pv * real_of_int d / Re_number"

definition omega :: "real \<Rightarrow> int \<Rightarrow> real" where
  "omega pv d = 1.0 / (3 * visc pv d + 0.5)"

text \<open>
  The body of the loop \<open>for diam in diam_list\<close> up to the call \<open>sim.run(t_max)\<close>: the
  constructor arguments and the module-level variables of that iteration. A division by
  \<open>scale_factor\<close> raises when it is zero (it never is: \<open>80 / diam\<close> is not zero).
\<close>

definition run_setup :: "int \<Rightarrow> py_error + (sim_kwargs \<times> globals)" where
  "run_setup d =
     (case scale_factor d of
        Inl e \<Rightarrow> Inl e
      | Inr sf \<Rightarrow>
          if sf = 0 then Inl ZeroDivisionError
          else
            let pv = 0.003 * sf;
                nx = py_int (22 * real_of_int d);
                ny = py_int (4.1 * real_of_int d)
            in Inr (\<lparr> kw_lattice = ''LatticeD2Q9'',
                      kw_omega = omega pv d,
                      kw_nx = nx,
                      kw_ny = ny,
                      kw_nz = 0,
                      kw_precision = precision,
                      kw_io_rate = py_int (500 / sf),
                      kw_print_info_rate = py_int (10000 / sf),
                      kw_return_fpost = True \<rparr>,
                    \<lparr> diam = d,
                      prescribed_vel = pv,
                      t_max = py_int (1000000 / sf) \<rparr>))"

subsection \<open>Boundary conditions and the simulation object\<close>

text \<open>
  The boundary-condition classes of \<open>src.boundary_conditions\<close>, as the script constructs
  them: the governed indices (\<open>tuple(a.T)\<close> of an index array \<open>a\<close>, i.e. the same indices
  column-wise), for the interpolated bounce-back the implicit distance field, for
  \<open>Regularized\<close> the type string and the prescribed values. The arguments \<open>self.gridInfo\<close>
  and \<open>self.precisionPolicy\<close>, the same objects in every call, are left out.
\<close>

datatype boundary_condition =
    InterpolatedBounceBackBouzidi "index list" field2
  | ExtrapolationOutflow "index list"
  | Regularized "index list" string "vec list"

record bounding_box =
  bb_left :: "index list"
  bb_right :: "index list"
  bb_top :: "index list"
  bb_bottom :: "index list"

text \<open>
  The attributes of \<open>self\<close> that the two methods read or write. \<open>CL_max\<close> and \<open>CD_max\<close> do
  not exist until \<open>output_data\<close> assigns them: \<open>None\<close> is the missing attribute.
\<close>

record cylinder_sim =
  nx :: nat
  ny :: nat
  boundingBoxIndices :: bounding_box
  BCs :: "boundary_condition list"
  CL_max :: "real option"
  CD_max :: "real option"

subsection \<open>Array helpers\<close>

text \<open>\<open>[(i, j) for i in range(nx) for j in range(ny)]\<close>\<close>

definition coord :: "nat \<Rightarrow> nat \<Rightarrow> index list" where
  "coord m n = [(i, j). i \<leftarrow> [0..<m], j \<leftarrow> [0..<n]]"

text \<open>
  \<open>np.reshape(a, (m, n))\<close> and \<open>a.reshape(m, n)\<close> of a flat array, row-major. The script
  only reshapes arrays of \<open>m * n\<close> elements.
\<close>

definition reshape2 :: "nat \<Rightarrow> nat \<Rightarrow> 'a list \<Rightarrow> 'a list list" where
  "reshape2 m n a = map (\<lambda>i. take n (drop (i * n) a)) [0..<m]"

text \<open>\<open>grid[tuple(idx.T)]\<close>: one element per index, \<open>IndexError\<close> out of range.\<close>

fun index_grid :: "'a list list \<Rightarrow> index list \<Rightarrow> py_error + 'a list" where
  "index_grid grid [] = Inr []"
| "index_grid grid ((i, j) # ps) =
     (if i < length grid \<and> j < length (grid ! i) then
        (case index_grid grid ps of
           Inl e \<Rightarrow> Inl e
         | Inr vs \<Rightarrow> Inr (grid ! i ! j # vs))
      else Inl IndexError)"

text \<open>\<open>a.min()\<close> and \<open>a.max()\<close>: \<open>ValueError\<close> on an empty array.\<close>

definition np_min :: "int list \<Rightarrow> py_error + int" where
  "np_min a = (case a of [] \<Rightarrow> Inl ValueError | x # xs \<Rightarrow> Inr (fold min xs x))"

definition np_max :: "int list \<Rightarrow> py_error + int" where
  "np_max a = (case a of [] \<Rightarrow> Inl ValueError | x # xs \<Rightarrow> Inr (fold max xs x))"

text \<open>\<open>a[..., 1:-1, :]\<close> on an array of shape \<open>(nx, ny, k)\<close>: drops \<open>j = 0\<close> and \<open>j = ny - 1\<close>.\<close>

definition slice_inner :: "'a list list \<Rightarrow> 'a list list" where
  "slice_inner a = map (\<lambda>row. butlast (tl row)) a"

text \<open>\<open>np.linalg.norm(a, axis=2)\<close>: the Euclidean norm of every component vector.\<close>

definition vec_norm :: "vec \<Rightarrow> real" where
  "vec_norm v = sqrt (sum_list (map (\<lambda>x. x\<^sup>2) v))"

definition norm_axis2 :: "vfield \<Rightarrow> field2" where
  "norm_axis2 a = map (map vec_norm) a"

text \<open>
  \<open>np.sum(np.abs(a - b))\<close> of two 2D arrays. Arrays of different shapes raise \<open>ValueError\<close>
  (numpy's broadcasting of unequal shapes is not modelled: both arrays come from velocity
  fields of the solver's shape).
\<close>

definition sum_abs_diff :: "field2 \<Rightarrow> field2 \<Rightarrow> py_error + real" where
  "sum_abs_diff a b =
     (if map length a = map length b
      then Inr (sum_list (map (\<lambda>(ra, rb). sum_list (map (\<lambda>(x, y). \<bar>x - y\<bar>) (zip ra rb))) (zip a b)))
      else Inl ValueError)"

text \<open>\<open>np.sum(np.array(forces), axis=0)\<close> of an array of shape \<open>(n, 2)\<close>.\<close>

definition sum_axis0 :: "(real \<times> real) list \<Rightarrow> real \<times> real" where
  "sum_axis0 fs = (sum_list (map fst fs), sum_list (map snd fs))"

subsection \<open>\<open>Cylinder.set_boundary_conditions\<close>\<close>

text \<open>
  The left-hand side of the cylinder test and of the implicit distance:
  \<open>(xx - cx)**2 + (yy - cy)**2\<close> with \<open>cx, cy = 2.*diam, 2.*diam\<close>.
\<close>

definition cylinder_centre :: "globals \<Rightarrow> real \<times> real" where
  "cylinder_centre g = (2 * real_of_int (diam g), 2 * real_of_int (diam g))"

definition sq_dist :: "globals \<Rightarrow> int \<Rightarrow> int \<Rightarrow> real" where
  "sq_dist g x y =
     (case cylinder_centre g of
        (cx, cy) \<Rightarrow> (real_of_int x - cx)\<^sup>2 + (real_of_int y - cy)\<^sup>2)"

text \<open>
  \<open>xx, yy = coord[:, 0], coord[:, 1]\<close>, the mask \<open>(xx - cx)**2 + (yy-cy)**2 <= (diam/2.)**2\<close>
  and \<open>coord[mask]\<close>: the governed indices of the cylinder.
\<close>

definition cylinder_indices :: "globals \<Rightarrow> index list \<Rightarrow> index list" where
  "cylinder_indices g cs =
     (let xx = map (\<lambda>p. int (fst p)) cs;
          yy = map (\<lambda>p. int (snd p)) cs;
          mask = map2 (\<lambda>x y. sq_dist g x y \<le> (real_of_int (diam g) / 2)\<^sup>2) xx yy
      in map fst (filter snd (zip cs mask)))"

text \<open>\<open>np.reshape((xx - cx)**2 + (yy-cy)**2 - (diam/2.)**2, (self.nx, self.ny))\<close>\<close>

definition implicit_distance :: "globals \<Rightarrow> nat \<Rightarrow> nat \<Rightarrow> index list \<Rightarrow> field2" where
  "implicit_distance g m n cs =
     (let xx = map (\<lambda>p. int (fst p)) cs;
          yy = map (\<lambda>p. int (snd p)) cs
      in reshape2 m n (map2 (\<lambda>x y. sq_dist g x y - (real_of_int (diam g) / 2)\<^sup>2) xx yy))"

text \<open>
  \<open>vel_inlet = np.zeros(inlet.shape)\<close> followed by \<open>vel_inlet[:, 0] = profile\<close>: one row
  \<open>[0, 0]\<close> per inlet index, its first component overwritten.
\<close>

definition inlet_velocity :: "index list \<Rightarrow> real list \<Rightarrow> vec list" where
  "inlet_velocity inlet profile =
     (let vel_inlet = map (\<lambda>p. [0, 0]) inlet
      in map2 (\<lambda>row p. row[0 := p]) vel_inlet profile)"

text \<open>
  The method appends four boundary conditions to \<open>self.BCs\<close>, in this order: the cylinder,
  the outlet, the inlet, the walls. \<open>coord[:, 0]\<close> raises \<open>IndexError\<close> on an empty grid
  (then \<open>coord\<close> is a 1D array); \<open>yy_inlet.min()\<close> raises \<open>ValueError\<close> on an empty inlet.
  The arrays \<open>rho_outlet\<close> and \<open>rho_inlet\<close> are built and never used. An exception leaves
  the method; the model returns it in place of the object.
\<close>

definition set_boundary_conditions :: "globals \<Rightarrow> cylinder_sim \<Rightarrow> py_error + cylinder_sim" where
  "set_boundary_conditions g s =
     (let coord = coord (nx s) (ny s) in
      if coord = [] then Inl IndexError
      else
        let yy = map (\<lambda>p. int (snd p)) coord;
            cylinder = cylinder_indices g coord;
            bcs1 = BCs s @ [InterpolatedBounceBackBouzidi cylinder
                              (implicit_distance g (nx s) (ny s) coord)];
            outlet = bb_right (boundingBoxIndices s);
            bcs2 = bcs1 @ [ExtrapolationOutflow outlet];
            inlet = bb_left (boundingBoxIndices s)
        in
          (case index_grid (reshape2 (nx s) (ny s) yy) inlet of
             Inl e \<Rightarrow> Inl e
           | Inr yy_inlet \<Rightarrow>
               (case np_min yy_inlet of
                  Inl e \<Rightarrow> Inl e
                | Inr lo \<Rightarrow>
                    (case np_max yy_inlet of
                       Inl e \<Rightarrow> Inl e
                     | Inr hi \<Rightarrow>
                         (case poiseuille_profile (map real_of_int yy_inlet) (real_of_int lo)
                                 (real_of_int (hi - lo)) (3.0 / 2.0 * prescribed_vel g) of
                            Inl e \<Rightarrow> Inl e
                          | Inr profile \<Rightarrow>
                              let bcs3 = bcs2 @ [Regularized inlet ''velocity''
                                                   (inlet_velocity inlet profile)];
                                  wall = bb_top (boundingBoxIndices s) @
                                         bb_bottom (boundingBoxIndices s);
                                  vel_wall = map (\<lambda>p. [0, 0]) wall;
                                  bcs4 = bcs3 @ [Regularized wall ''velocity'' vel_wall]
                              in Inr (s\<lparr>BCs := bcs4\<rparr>))))))"

subsection \<open>The momentum-exchange force of the library\<close>

text \<open>
  A population field gives one value per node and lattice direction; a boundary link is a
  governed node together with a lattice direction that crosses the boundary there.
\<close>

type_synonym populations = "index \<Rightarrow> nat \<Rightarrow> real"
type_synonym link = "index \<times> nat"

text \<open>
  What the script uses of the library without defining it: the velocity vectors of the
  D2Q9 lattice (\<open>src.lattice\<close>) and the boundary links a boundary condition governs
  (derived by \<open>src.boundary_conditions\<close> from the indices and the distance field).
\<close>

record library =
  lattice_c :: "nat \<Rightarrow> real \<times> real"
  governed_links :: "boundary_condition \<Rightarrow> link list"

text \<open>
  Modelled from the spec: the method \<open>momentum_exchange_force\<close> of
  \<open>InterpolatedBounceBackBouzidi\<close> (module \<open>src.boundary_conditions\<close>, not part of the
  sources at hand). The spec: it "sums, over all governed boundary links, the difference
  between pre-streaming and post-streaming populations weighted by the link's velocity
  vector", and of the boundary variants only this "one implements both" correction and
  force. The method returns one contribution per link (the script sums them along axis 0);
  looking it up on another variant raises \<open>AttributeError\<close>.
\<close>

definition link_force :: "library \<Rightarrow> populations \<Rightarrow> populations \<Rightarrow> link \<Rightarrow> real \<times> real" where
  "link_force lib f_post f_pre l =
     (case l of
        (x, q) \<Rightarrow>
          ((f_pre x q - f_post x q) * fst (lattice_c lib q),
           (f_pre x q - f_post x q) * snd (lattice_c lib q)))"

definition momentum_exchange_force ::
  "library \<Rightarrow> boundary_condition \<Rightarrow>
     py_error + (populations \<Rightarrow> populations \<Rightarrow> (real \<times> real) list)" where
  "momentum_exchange_force lib bc =
     (case bc of
        InterpolatedBounceBackBouzidi idx field \<Rightarrow>
          Inr (\<lambda>f_poststreaming f_postcollision.
                 map (link_force lib f_poststreaming f_postcollision) (governed_links lib bc))
      | _ \<Rightarrow> Inl AttributeError)"

subsection \<open>\<open>Cylinder.output_data\<close>\<close>

text \<open>
  The keyword arguments the solver passes. The post-collision populations are present only
  when the solver retained them (\<open>'return_fpost': True\<close>, "Need to retain fpost-collision
  for computation of lift and drag"); \<open>None\<close> is the missing key.
\<close>

record output_kwargs =
  rho :: "vfield"
  u :: "vfield"
  timestep :: int
  u_prev :: "vfield"
  f_poststreaming :: populations
  f_postcollision :: "populations option"


text \<open>What one call prints (\<open>err\<close>, \<open>cl\<close>, \<open>cd\<close>) and passes to \<open>save_image\<close>.\<close>

record report =
  rep_err :: real
  rep_cl :: real
  rep_cd :: real
  rep_image :: "int \<times> vfield"

text \<open>
  Lines 84 to 87 of the method, for the boundary condition \<open>cylinder\<close>: the call of
  \<open>momentum_exchange_force\<close>, the sum along axis 0, and \<open>drag\<close> and \<open>lift\<close> as the
  components 0 and 1. Python looks up \<open>cylinder.momentum_exchange_force\<close> before it
  evaluates the arguments \<open>kwargs['f_poststreaming']\<close> and \<open>kwargs['f_postcollision']\<close>.
\<close>

definition boundary_drag_lift ::
  "library \<Rightarrow> boundary_condition \<Rightarrow> output_kwargs \<Rightarrow> py_error + (real \<times> real)" where
  "boundary_drag_lift lib cylinder kw =
     (case momentum_exchange_force lib cylinder of
        Inl e \<Rightarrow> Inl e
      | Inr force_method \<Rightarrow>
          (case f_postcollision kw of
             None \<Rightarrow> Inl KeyError
           | Some fpc \<Rightarrow>
               let boundary_force = sum_axis0 (force_method (f_poststreaming kw) fpc);
                   drag = fst boundary_force;
                   lift = snd boundary_force
               in Inr (drag, lift)))"

text \<open>
  The method. \<open>self.BCs[0]\<close> raises \<open>IndexError\<close> on an empty list. The divisor
  \<open>prescribed_vel ** 2 * diam\<close> is a Python float and the dividend a numpy float, so a
  zero divisor gives a non-finite coefficient. \<open>max(self.CL_max, cl)\<close> raises
  \<open>AttributeError\<close> when \<open>self.CL_max\<close> was never assigned. The array \<open>rho\<close> is sliced
  and not used.
\<close>

definition output_data ::
  "library \<Rightarrow> globals \<Rightarrow> cylinder_sim \<Rightarrow> output_kwargs \<Rightarrow>
     py_error + (cylinder_sim \<times> report option)" where
  "output_data lib g s kw =
     (let rho' = slice_inner (rho kw);
          u' = slice_inner (u kw);
          u_prev' = slice_inner (u_prev kw);
          s1 = (if timestep kw = 0 then s\<lparr>CL_max := Some 0.0, CD_max := Some 0.0\<rparr> else s)
      in
        if real_of_int (timestep kw) > 0.8 * real_of_int (t_max g) then
          (case BCs s1 of
             [] \<Rightarrow> Inl IndexError
           | cylinder # _ \<Rightarrow>
               (case boundary_drag_lift lib cylinder kw of
                  Inl e \<Rightarrow> Inl e
                | Inr (drag, lift) \<Rightarrow>
                    let denom = (prescribed_vel g)\<^sup>2 * real_of_int (diam g)
                    in
                      if denom = 0 then Inl NonFinite
                      else
                        let cd = 2 * drag / denom;
                            cl = 2 * lift / denom;
                            u_old = norm_axis2 u_prev';
                            u_new = norm_axis2 u'
                        in
                          (case sum_abs_diff u_old u_new of
                             Inl e \<Rightarrow> Inl e
                           | Inr err \<Rightarrow>
                               (case CL_max s1 of
                                  None \<Rightarrow> Inl AttributeError
                                | Some cl_max \<Rightarrow>
                                    (case CD_max s1 of
                                       None \<Rightarrow> Inl AttributeError
                                     | Some cd_max \<Rightarrow>
                                         Inr (s1\<lparr>CL_max := Some (max cl_max cl),
                                                  CD_max := Some (max cd_max cd)\<rparr>,
                                              Some \<lparr>rep_err = err, rep_cl = cl, rep_cd = cd,
                                                     rep_image = (timestep kw, u')\<rparr>))))))
        else Inr (s1, None))"

subsection \<open>\<open>Cylinder.__init__\<close>\<close>

text \<open>
  \<open>Cylinder.__init__\<close> only calls \<open>super().__init__(**kwargs)\<close>.

  Modelled from the spec: the constructor of the library's simulation class (\<open>BGKSim\<close> in
  \<open>src.models\<close>, not part of the sources at hand), as far as the boundary conditions go.
  The spec: the boundary conditions are "constructed once during setup from geometry +
  grid" and "held in an ordered list by the Orchestrator"; setup "supplies, once, per
  boundary" the governed indices and values; the bounding-box index sets "are derived
  once from dimensions". So the constructor starts from an object of the given
  dimensions with its bounding-box index sets (a parameter here), an empty list \<open>BCs\<close> and
  no \<open>CL_max\<close>, \<open>CD_max\<close>, and calls \<open>set_boundary_conditions\<close> once.
\<close>

definition Cylinder_init ::
  "globals \<Rightarrow> nat \<Rightarrow> nat \<Rightarrow> bounding_box \<Rightarrow> py_error + cylinder_sim" where
  "Cylinder_init g m n box =
     set_boundary_conditions g
       \<lparr> nx = m, ny = n, boundingBoxIndices = box, BCs = [],
         CL_max = None, CD_max = None \<rparr>"

subsection \<open>One run and what the main block records\<close>

text \<open>
  \<open>sim.run(t_max)\<close> belongs to the library; what matters to the script is the sequence of
  calls of \<open>output_data\<close> it makes. \<open>run_outputs\<close> performs them in order, collecting the
  reports, and stops at the first exception.
\<close>

fun run_outputs ::
  "library \<Rightarrow> globals \<Rightarrow> cylinder_sim \<Rightarrow> output_kwargs list \<Rightarrow>
     py_error + (cylinder_sim \<times> report list)" where
  "run_outputs lib g s [] = Inr (s, [])"
| "run_outputs lib g s (kw # kws) =
     (case output_data lib g s kw of
        Inl e \<Rightarrow> Inl e
      | Inr (s', r) \<Rightarrow>
          (case run_outputs lib g s' kws of
             Inl e \<Rightarrow> Inl e
           | Inr (s'', rs) \<Rightarrow> Inr (s'', (case r of None \<Rightarrow> [] | Some x \<Rightarrow> [x]) @ rs)))"

text \<open>
  \<open>CL_list.append(sim.CL_max)\<close> and \<open>CD_list.append(sim.CD_max)\<close>: the values that end up in
  \<open>data.json\<close> for this diameter; \<open>AttributeError\<close> when they were never assigned.
\<close>

definition recorded_maxima :: "cylinder_sim \<Rightarrow> py_error + (real \<times> real)" where
  "recorded_maxima s =
     (case CL_max s of
        None \<Rightarrow> Inl AttributeError
      | Some cl \<Rightarrow>
          (case CD_max s of
             None \<Rightarrow> Inl AttributeError
           | Some cd \<Rightarrow> Inr (cl, cd)))"

subsection \<open>The convergence error in the words of the specification\<close>

text \<open>
  "L1 norm of velocity-field change since last sampled step": the sum, over all nodes and
  all components, of the absolute difference of the two velocity fields.
\<close>

definition spec_l1_velocity_change :: "vfield \<Rightarrow> vfield \<Rightarrow> real" where
  "spec_l1_velocity_change a b =
     (\<Sum>(ra, rb)\<leftarrow>zip a b. \<Sum>(va, vb)\<leftarrow>zip ra rb. \<Sum>(x, y)\<leftarrow>zip va vb. \<bar>x - y\<bar>)"

subsection \<open>A small instance\<close>

text \<open>
  A grid of 3 by 3 nodes around a cylinder of diameter 1, with the bounding-box index sets
  of that grid, a lattice of three directions and two boundary links at the cylinder node.
  It serves to evaluate the definitions on concrete data.
\<close>

definition small_globals :: globals where
  "small_globals = \<lparr> diam = 1, prescribed_vel = 0.24, t_max = 10 \<rparr>"

definition small_box :: bounding_box where
  "small_box = \<lparr> bb_left = [(0, 0), (0, 1), (0, 2)],
                  bb_right = [(2, 0), (2, 1), (2, 2)],
                  bb_top = [(0, 2), (1, 2), (2, 2)],
                  bb_bottom = [(0, 0), (1, 0), (2, 0)] \<rparr>"

definition small_sim :: cylinder_sim where
  "small_sim = \<lparr> nx = 3, ny = 3, boundingBoxIndices = small_box, BCs = [],
                  CL_max = None, CD_max = None \<rparr>"

definition small_cylinder :: boundary_condition where
  "small_cylinder =
     InterpolatedBounceBackBouzidi [(2, 2)]
       [[7.75, 4.75, 3.75], [4.75, 1.75, 0.75], [3.75, 0.75, - 0.25]]"

definition small_BCs :: "boundary_condition list" where
  "small_BCs =
     [small_cylinder,
      ExtrapolationOutflow [(2, 0), (2, 1), (2, 2)],
      Regularized [(0, 0), (0, 1), (0, 2)] ''velocity'' [[0, 0], [0.36, 0], [0, 0]],
      Regularized [(0, 2), (1, 2), (2, 2), (0, 0), (1, 0), (2, 0)] ''velocity''
        [[0, 0], [0, 0], [0, 0], [0, 0], [0, 0], [0, 0]]]"

definition small_library :: library where
  "small_library =
     \<lparr> lattice_c = (\<lambda>q. if q = 1 then (1, 0) else if q = 2 then (0, 1) else (0, 0)),
       governed_links = (\<lambda>bc. [((2, 2), 1), ((2, 2), 2)]) \<rparr>"

text \<open>
  Keyword arguments of a sampled step: between the two samples the velocity at the inner
  node \<open>(1, 1)\<close> turns from \<open>(1, 0)\<close> to \<open>(0, 1)\<close>; the populations differ by \<open>a * q\<close> on
  direction \<open>q\<close>.
\<close>

definition zero_row :: "vec list" where
  "zero_row = [[0, 0], [0, 0], [0, 0]]"

definition small_kwargs :: "int \<Rightarrow> real \<Rightarrow> output_kwargs" where
  "small_kwargs t a =
     \<lparr> rho = [[[1], [1], [1]], [[1], [1], [1]], [[1], [1], [1]]],
       u = [zero_row, [[0, 0], [0, 1], [0, 0]], zero_row],
       timestep = t,
       u_prev = [zero_row, [[0, 0], [1, 0], [0, 0]], zero_row],
       f_poststreaming = (\<lambda>x q. 0),
       f_postcollision = Some (\<lambda>x q. a * real q) \<rparr>"

section \<open>Properties\<close>

subsection \<open>Auxiliary facts about the profile and the array helpers\<close>

lemma poiseuille_value_nonneg: "poiseuille_value x x0 d um = Inr v \<Longrightarrow> 0 \<le> v"
  by (auto simp: poiseuille_value_def split: if_splits)

lemma poiseuille_value_ends:
  "d \<noteq> 0 \<Longrightarrow> poiseuille_value x0 x0 d um = Inr 0 \<and> poiseuille_value (x0 + d) x0 d um = Inr 0"
  by (simp add: poiseuille_value_def power2_eq_square)

lemma poiseuille_value_symmetric:
  "poiseuille_value (x0 + d / 2 + t) x0 d um = poiseuille_value (x0 + d / 2 - t) x0 d um"
  by (simp add: poiseuille_value_def power2_eq_square algebra_simps)

lemma poiseuille_value_midline:
  "d \<noteq> 0 \<Longrightarrow> 0 \<le> um \<Longrightarrow> poiseuille_value (x0 + d / 2) x0 d um = Inr um"
  by (simp add: poiseuille_value_def power2_eq_square field_simps)

lemma poiseuille_value_le_umax:
  assumes "0 \<le> um" "poiseuille_value x x0 d um = Inr v" shows "v \<le> um"
proof -
  define E where "E = (x - x0) * d - (x - x0)\<^sup>2"
  from assms(2) have d: "d\<^sup>2 \<noteq> 0" and v: "v = max 0 (4 * um / d\<^sup>2 * E)"
    by (auto simp: poiseuille_value_def E_def split: if_splits)
  have "d\<^sup>2 - 4 * E = (d - 2 * (x - x0))\<^sup>2"
    by (simp add: E_def power2_eq_square algebra_simps)
  moreover have "0 \<le> (d - 2 * (x - x0))\<^sup>2" by simp
  ultimately have "4 * E \<le> d\<^sup>2" by linarith
  moreover have "0 < d\<^sup>2" using d by simp
  ultimately have "4 * E / d\<^sup>2 \<le> 1"
    by (simp add: divide_le_eq)
  then have "um * (4 * E / d\<^sup>2) \<le> um * 1"
    using assms(1) by (rule mult_left_mono)
  moreover have "4 * um / d\<^sup>2 * E = um * (4 * E / d\<^sup>2)"
    by simp
  ultimately have "4 * um / d\<^sup>2 * E \<le> um"
    by (simp only: mult_1_right)
  with assms(1) v show ?thesis by simp
qed

lemma poiseuille_profile_Inr:
  "poiseuille_profile xs x0 d um = Inr vs \<Longrightarrow>
     length vs = length xs \<and> (\<forall>k<length xs. poiseuille_value (xs ! k) x0 d um = Inr (vs ! k))"
proof (induction xs arbitrary: vs)
  case Nil
  then show ?case by simp
next
  case (Cons x xs)
  from Cons.prems obtain v ws where v: "poiseuille_value x x0 d um = Inr v"
    and ws: "poiseuille_profile xs x0 d um = Inr ws" and vs: "vs = v # ws"
    by (auto split: sum.splits)
  from Cons.IH[OF ws] v vs show ?case
    by (auto simp: nth_Cons split: nat.splits)
qed

lemma index_grid_Inr:
  "index_grid grid ps = Inr vs \<Longrightarrow>
     length vs = length ps \<and>
     (\<forall>k<length ps. fst (ps ! k) < length grid \<and> snd (ps ! k) < length (grid ! fst (ps ! k)) \<and>
        vs ! k = grid ! fst (ps ! k) ! snd (ps ! k))"
proof (induction ps arbitrary: vs)
  case Nil
  then show ?case by simp
next
  case (Cons p ps)
  obtain i j where p: "p = (i, j)" by (cases p)
  from Cons.prems p obtain ws where r: "i < length grid" "j < length (grid ! i)"
    and ws: "index_grid grid ps = Inr ws" and vs: "vs = grid ! i ! j # ws"
    by (auto split: sum.splits if_splits)
  from Cons.IH[OF ws] r vs p show ?case
    by (auto simp: nth_Cons split: nat.splits)
qed

lemma length_coord: "length (coord m n) = m * n"
  by (simp add: coord_def product_concat_map[symmetric])

lemma flat_index_less: "i < m \<Longrightarrow> j < n \<Longrightarrow> i * n + j < m * (n::nat)"
proof -
  assume i: "i < m" and j: "j < n"
  have "i * n + j < i * n + n" using j by simp
  also have "\<dots> = Suc i * n" by simp
  also have "\<dots> \<le> m * n" using i by (intro mult_le_mono1) simp
  finally show ?thesis .
qed

lemma coord_nth: "i < m \<Longrightarrow> j < n \<Longrightarrow> coord m n ! (i * n + j) = (i, j)"
proof -
  assume i: "i < m" and j: "j < n"
  have "coord m n = List.product [0..<m] [0..<n]"
    by (simp add: coord_def product_concat_map)
  then show ?thesis using flat_index_less[OF i j] i j
    by (simp add: product_nth)
qed

lemma set_coord: "set (coord m n) = {0..<m} \<times> {0..<n}"
  by (auto simp: coord_def)

lemma reshape2_nth:
  "i < m \<Longrightarrow> j < n \<Longrightarrow> length a = m * n \<Longrightarrow> reshape2 m n a ! i ! j = a ! (i * n + j)"
  by (simp add: reshape2_def)

lemma reshape2_length: "length (reshape2 m n a) = m"
  by (simp add: reshape2_def)

lemma reshape2_row_length: "i < m \<Longrightarrow> length a = m * n \<Longrightarrow> length (reshape2 m n a ! i) = n"
proof -
  assume i: "i < m" and a: "length a = m * n"
  have "Suc i * n \<le> m * n" using i by (intro mult_le_mono1) simp
  then have "n \<le> m * n - i * n" by simp
  then show ?thesis using i a by (simp add: reshape2_def)
qed

lemma set_boundary_conditions_Inr:
  assumes "set_boundary_conditions g s = Inr s'"
  shows "\<exists>yy_inlet lo hi profile.
     coord (nx s) (ny s) \<noteq> [] \<and>
     index_grid (reshape2 (nx s) (ny s) (map (\<lambda>p. int (snd p)) (coord (nx s) (ny s))))
        (bb_left (boundingBoxIndices s)) = Inr yy_inlet \<and>
     np_min yy_inlet = Inr lo \<and> np_max yy_inlet = Inr hi \<and>
     poiseuille_profile (map real_of_int yy_inlet) (real_of_int lo) (real_of_int (hi - lo))
        (3.0 / 2.0 * prescribed_vel g) = Inr profile \<and>
     s' = s\<lparr>BCs := BCs s @
            [InterpolatedBounceBackBouzidi (cylinder_indices g (coord (nx s) (ny s)))
               (implicit_distance g (nx s) (ny s) (coord (nx s) (ny s))),
             ExtrapolationOutflow (bb_right (boundingBoxIndices s)),
             Regularized (bb_left (boundingBoxIndices s)) ''velocity''
               (inlet_velocity (bb_left (boundingBoxIndices s)) profile),
             Regularized (bb_top (boundingBoxIndices s) @ bb_bottom (boundingBoxIndices s))
               ''velocity''
               (map (\<lambda>p. [0, 0]) (bb_top (boundingBoxIndices s) @ bb_bottom (boundingBoxIndices s)))]\<rparr>"
  using assms unfolding set_boundary_conditions_def Let_def
  by (auto split: if_splits sum.splits)


lemma yy_inlet_values:
  assumes "index_grid (reshape2 m n (map (\<lambda>p. int (snd p)) (coord m n))) ps = Inr vs"
  shows "vs = map (\<lambda>p. int (snd p)) ps \<and> (\<forall>p\<in>set ps. fst p < m \<and> snd p < n)"
proof -
  let ?a = "map (\<lambda>p. int (snd p)) (coord m n)"
  have la: "length ?a = m * n" by (simp add: length_coord)
  note ig = index_grid_Inr[OF assms]
  have bound: "fst (ps ! k) < m \<and> snd (ps ! k) < n" if k: "k < length ps" for k
  proof -
    from ig k have i: "fst (ps ! k) < m"
      by (simp add: reshape2_length)
    from ig k have "snd (ps ! k) < length (reshape2 m n ?a ! fst (ps ! k))" by simp
    with i show ?thesis using reshape2_row_length[OF i la] by simp
  qed
  have val: "vs ! k = int (snd (ps ! k))" if k: "k < length ps" for k
  proof -
    from bound[OF k] have i: "fst (ps ! k) < m" and j: "snd (ps ! k) < n" by simp_all
    from ig k have "vs ! k = reshape2 m n ?a ! fst (ps ! k) ! snd (ps ! k)" by simp
    also have "\<dots> = ?a ! (fst (ps ! k) * n + snd (ps ! k))"
      by (rule reshape2_nth[OF i j la])
    also have "\<dots> = int (snd (coord m n ! (fst (ps ! k) * n + snd (ps ! k))))"
      using flat_index_less[OF i j] by (simp add: length_coord)
    also have "\<dots> = int (snd (ps ! k))"
      by (simp add: coord_nth[OF i j])
    finally show ?thesis .
  qed
  have "vs = map (\<lambda>p. int (snd p)) ps"
    using ig val by (intro nth_equalityI) simp_all
  moreover have "\<forall>p\<in>set ps. fst p < m \<and> snd p < n"
    using bound by (metis in_set_conv_nth)
  ultimately show ?thesis by simp
qed

lemma np_min_Inr: "np_min a = Inr lo \<Longrightarrow> a \<noteq> [] \<and> lo = Min (set a)"
  using Min.set_eq_fold[where ?'a = int]
  by (cases a) (simp_all add: np_min_def)

lemma np_max_Inr: "np_max a = Inr hi \<Longrightarrow> a \<noteq> [] \<and> hi = Max (set a)"
  using Max.set_eq_fold[where ?'a = int]
  by (cases a) (simp_all add: np_max_def)

lemma inlet_velocity_rows:
  "length profile = length inlet \<Longrightarrow> inlet_velocity inlet profile = map (\<lambda>p. [p, 0]) profile"
  by (auto simp: inlet_velocity_def Let_def intro!: nth_equalityI)

lemma mask_filter:
  "map fst (filter snd (zip cs (map2 f (map a cs) (map b cs)))) = filter (\<lambda>p. f (a p) (b p)) cs"
  by (induction cs) simp_all

lemma cylinder_indices_filter:
  "cylinder_indices g cs =
     filter (\<lambda>p. sq_dist g (int (fst p)) (int (snd p)) \<le> (real_of_int (diam g) / 2)\<^sup>2) cs"
  unfolding cylinder_indices_def Let_def by (rule mask_filter)

lemma cylinder_indices_mem:
  "(i, j) \<in> set (cylinder_indices g (coord m n)) \<longleftrightarrow>
     i < m \<and> j < n \<and> sq_dist g (int i) (int j) \<le> (real_of_int (diam g) / 2)\<^sup>2"
  by (auto simp: cylinder_indices_filter set_coord)

lemma implicit_distance_nth:
  assumes i: "i < m" and j: "j < n"
  shows "implicit_distance g m n (coord m n) ! i ! j =
           sq_dist g (int i) (int j) - (real_of_int (diam g) / 2)\<^sup>2"
proof -
  let ?f = "\<lambda>x y. sq_dist g x y - (real_of_int (diam g) / 2)\<^sup>2"
  let ?a = "map2 ?f (map (\<lambda>p. int (fst p)) (coord m n)) (map (\<lambda>p. int (snd p)) (coord m n))"
  have la: "length ?a = m * n" by (simp add: length_coord)
  have "implicit_distance g m n (coord m n) ! i ! j = ?a ! (i * n + j)"
    unfolding implicit_distance_def Let_def by (rule reshape2_nth[OF i j la])
  also have "\<dots> = ?f (int i) (int j)"
    using flat_index_less[OF i j] by (simp add: length_coord coord_nth[OF i j])
  finally show ?thesis .
qed

subsection \<open>The small instance, evaluated\<close>

lemma upt3: "[0..<3] = [0, 1, 2]"
  by (simp add: upt_rec)

lemma small_set_boundary_conditions:
  "set_boundary_conditions small_globals small_sim = Inr (small_sim\<lparr>BCs := small_BCs\<rparr>)"
  by (simp add: set_boundary_conditions_def small_sim_def small_box_def Let_def coord_def upt3
      cylinder_indices_def implicit_distance_def reshape2_def sq_dist_def cylinder_centre_def
      np_min_def np_max_def poiseuille_value_def inlet_velocity_def small_BCs_def
      small_cylinder_def small_globals_def power2_eq_square)


lemma output_data_sampled:
  assumes "output_data lib g s kw = Inr (s', Some r)"
  shows "\<exists>cylinder rest drag lift err cl_max cd_max.
     real_of_int (timestep kw) > 0.8 * real_of_int (t_max g) \<and>
     BCs s = cylinder # rest \<and>
     boundary_drag_lift lib cylinder kw = Inr (drag, lift) \<and>
     (prescribed_vel g)\<^sup>2 * real_of_int (diam g) \<noteq> 0 \<and>
     sum_abs_diff (norm_axis2 (slice_inner (u_prev kw))) (norm_axis2 (slice_inner (u kw))) = Inr err \<and>
     (if timestep kw = 0 then Some 0 else CL_max s) = Some cl_max \<and>
     (if timestep kw = 0 then Some 0 else CD_max s) = Some cd_max \<and>
     r = \<lparr>rep_err = err,
          rep_cl = 2 * lift / ((prescribed_vel g)\<^sup>2 * real_of_int (diam g)),
          rep_cd = 2 * drag / ((prescribed_vel g)\<^sup>2 * real_of_int (diam g)),
          rep_image = (timestep kw, slice_inner (u kw))\<rparr> \<and>
     s' = s\<lparr>CL_max := Some (max cl_max (rep_cl r)), CD_max := Some (max cd_max (rep_cd r))\<rparr>"
  using assms unfolding output_data_def Let_def
  by (auto split: if_splits list.splits sum.splits option.splits prod.splits)

lemma output_data_not_sampled:
  assumes "output_data lib g s kw = Inr (s', None)"
  shows "\<not> real_of_int (timestep kw) > 0.8 * real_of_int (t_max g) \<and>
         s' = (if timestep kw = 0 then s\<lparr>CL_max := Some 0, CD_max := Some 0\<rparr> else s)"
  using assms unfolding output_data_def Let_def
  by (auto split: if_splits list.splits sum.splits option.splits prod.splits)

lemma small_output_0:
  "output_data small_library small_globals (small_sim\<lparr>BCs := small_BCs\<rparr>) (small_kwargs 0 a)
     = Inr (small_sim\<lparr>BCs := small_BCs, CL_max := Some 0, CD_max := Some 0\<rparr>, None)"
  by (simp add: output_data_def small_globals_def small_kwargs_def small_sim_def Let_def)

lemma small_drag_lift:
  "boundary_drag_lift small_library small_cylinder (small_kwargs t a) = Inr (a, 2 * a)"
  by (simp add: boundary_drag_lift_def momentum_exchange_force_def small_cylinder_def
      small_library_def small_kwargs_def sum_axis0_def link_force_def Let_def)

lemma small_err:
  "sum_abs_diff (norm_axis2 (slice_inner (u_prev (small_kwargs t a))))
     (norm_axis2 (slice_inner (u (small_kwargs t a)))) = Inr 0"
  by (simp add: sum_abs_diff_def norm_axis2_def slice_inner_def small_kwargs_def zero_row_def vec_norm_def)

lemma small_output_9:
  "output_data small_library small_globals
      (small_sim\<lparr>BCs := small_BCs, CL_max := Some 0, CD_max := Some 0\<rparr>) (small_kwargs 9 1)
     = Inr (small_sim\<lparr>BCs := small_BCs, CL_max := Some (625 / 9), CD_max := Some (625 / 18)\<rparr>,
            Some \<lparr>rep_err = 0, rep_cl = 625 / 9, rep_cd = 625 / 18,
                  rep_image = (9, [[[0, 0]], [[0, 1]], [[0, 0]]])\<rparr>)"
  unfolding output_data_def Let_def
  by (simp add: small_err small_drag_lift small_BCs_def small_sim_def)
     (simp add: small_globals_def small_kwargs_def slice_inner_def zero_row_def power2_eq_square)

lemma small_output_9_neg:
  "output_data small_library small_globals
      (small_sim\<lparr>BCs := small_BCs, CL_max := Some 0, CD_max := Some 0\<rparr>) (small_kwargs 9 (- 1))
     = Inr (small_sim\<lparr>BCs := small_BCs, CL_max := Some 0, CD_max := Some 0\<rparr>,
            Some \<lparr>rep_err = 0, rep_cl = - (625 / 9), rep_cd = - (625 / 18),
                  rep_image = (9, [[[0, 0]], [[0, 1]], [[0, 0]]])\<rparr>)"
  unfolding output_data_def Let_def
  by (simp add: small_err small_drag_lift small_BCs_def small_sim_def)
     (simp add: small_globals_def small_kwargs_def slice_inner_def zero_row_def power2_eq_square)

lemma small_spec_l1:
  "spec_l1_velocity_change (u (small_kwargs t a)) (u_prev (small_kwargs t a)) = 2"
  by (simp add: spec_l1_velocity_change_def small_kwargs_def zero_row_def)

section \<open>The claims\<close>

subsection \<open>The documented scenario and the relaxation parameter\<close>

text \<open>
  Claim C4, as stated: for \<open>diam = 80\<close> the channel is 41 nodes wide and 220 nodes long and
  the cylinder is centred at (160, 164.1). The script does not produce these numbers.
\<close>

theorem scenario_dimensions_counterexample:
  "\<not> (\<exists>k g. run_setup 80 = Inr (k, g) \<and> kw_nx k = 220 \<and> kw_ny k = 41 \<and>
          cylinder_centre g = (160, 164.1))"
  by (simp add: run_setup_def scale_factor_def py_int_def Let_def)

text \<open>
  Claim C4, amended: for \<open>diam = 80\<close> the script requests a grid of \<open>nx = 1760\<close> by
  \<open>ny = 328\<close> nodes (22 and 4.1 cylinder diameters), the cylinder of diameter 80 is centred
  at \<open>(160, 160)\<close>, and \<open>omega\<close> is computed for \<open>Re = 100\<close>. (In float64 the product
  \<open>4.1 * 80\<close> rounds to \<open>328.0\<close>, the exact value.)
\<close>

theorem scenario_dimensions:
  "\<exists>k g. run_setup 80 = Inr (k, g) \<and> diam g = 80 \<and>
     kw_nx k = 1760 \<and> kw_ny k = 328 \<and>
     real_of_int (kw_nx k) = 22 * real_of_int (diam g) \<and>
     real_of_int (kw_ny k) = 4.1 * real_of_int (diam g) \<and>
     cylinder_centre g = (160, 160) \<and>
     Re_number = 100 \<and>
     kw_omega k = 1 / (3 * (prescribed_vel g * real_of_int (diam g) / Re_number) + 0.5)"
  by (simp add: run_setup_def scale_factor_def py_int_def Let_def cylinder_centre_def
      Re_number_def omega_def visc_def)

text \<open>
  Claim C5: the relaxation parameter passed to the solver is \<open>1 / (3 * visc + 0.5)\<close> with
  \<open>visc = prescribed_vel * diam / Re\<close> and \<open>Re = 100\<close>, for every diameter of the sweep (every
  diameter other than 0, for which \<open>80 / diam\<close> raises).
\<close>

theorem omega_from_viscosity:
  assumes "d \<noteq> 0"
  shows "\<exists>k g. run_setup d = Inr (k, g) \<and>
           kw_omega k = 1 / (3 * visc (prescribed_vel g) (diam g) + 0.5) \<and>
           visc (prescribed_vel g) (diam g) = prescribed_vel g * real_of_int d / 100 \<and>
           kw_omega k = 1 / (3 * prescribed_vel g * real_of_int d / 100 + 0.5)"
  using assms
  by (simp add: run_setup_def scale_factor_def Let_def omega_def visc_def Re_number_def)

text \<open>Claim C5 at the diameter of the sweep, \<open>diam = 80\<close>.\<close>

theorem omega_from_viscosity_witness:
  "(80::int) \<noteq> 0 \<and> 80 \<in> set diam_list \<and>
   (\<exists>k g. run_setup 80 = Inr (k, g) \<and> prescribed_vel g = 0.003 \<and>
      kw_omega k = 1 / (3 * 0.003 * 80 / 100 + 0.5))"
proof -
  have h: "(80::int) \<noteq> 0" by simp
  from omega_from_viscosity[OF h] obtain k g where
    r: "run_setup 80 = Inr (k, g)" and
    o: "kw_omega k = 1 / (3 * prescribed_vel g * real_of_int 80 / 100 + 0.5)"
    by blast
  from r have "prescribed_vel g = 0.003"
    by (auto simp: run_setup_def scale_factor_def Let_def)
  with r o h show ?thesis by (simp add: diam_list_def)
qed

subsection \<open>The boundary conditions\<close>

text \<open>
  Claim C8: the top and bottom walls are governed by one \<open>Regularized\<close> boundary condition
  of type \<open>'velocity'\<close>, the last one appended; its indices are those of \<open>'top'\<close> followed by
  those of \<open>'bottom'\<close> (as a set, their union), and its prescribed velocity is the zero vector
  at every governed node.
\<close>

theorem wall_boundary_condition:
  assumes "set_boundary_conditions g s = Inr s'"
  shows "\<exists>cylinder_bc outlet_bc inlet_bc wall vel_wall.
           BCs s' = BCs s @ [cylinder_bc, outlet_bc, inlet_bc, Regularized wall ''velocity'' vel_wall] \<and>
           wall = bb_top (boundingBoxIndices s) @ bb_bottom (boundingBoxIndices s) \<and>
           set wall = set (bb_top (boundingBoxIndices s)) \<union> set (bb_bottom (boundingBoxIndices s)) \<and>
           length vel_wall = length wall \<and>
           (\<forall>k<length wall. vel_wall ! k = [0, 0])"
proof -
  from set_boundary_conditions_Inr[OF assms] obtain profile where
    "s' = s\<lparr>BCs := BCs s @
            [InterpolatedBounceBackBouzidi (cylinder_indices g (coord (nx s) (ny s)))
               (implicit_distance g (nx s) (ny s) (coord (nx s) (ny s))),
             ExtrapolationOutflow (bb_right (boundingBoxIndices s)),
             Regularized (bb_left (boundingBoxIndices s)) ''velocity''
               (inlet_velocity (bb_left (boundingBoxIndices s)) profile),
             Regularized (bb_top (boundingBoxIndices s) @ bb_bottom (boundingBoxIndices s))
               ''velocity''
               (map (\<lambda>p. [0, 0]) (bb_top (boundingBoxIndices s) @ bb_bottom (boundingBoxIndices s)))]\<rparr>"
    by blast
  then show ?thesis by (simp add: nth_append)
qed

text \<open>Claim C8 on the small instance.\<close>

theorem wall_boundary_condition_witness:
  "set_boundary_conditions small_globals small_sim = Inr (small_sim\<lparr>BCs := small_BCs\<rparr>) \<and>
   (\<exists>cylinder_bc outlet_bc inlet_bc vel_wall.
      small_BCs = [cylinder_bc, outlet_bc, inlet_bc,
         Regularized (bb_top small_box @ bb_bottom small_box) ''velocity'' vel_wall] \<and>
      length vel_wall = length (bb_top small_box @ bb_bottom small_box) \<and>
      (\<forall>k<length (bb_top small_box @ bb_bottom small_box). vel_wall ! k = [0, 0]))"
  using wall_boundary_condition[OF small_set_boundary_conditions] small_set_boundary_conditions
  by (simp add: small_sim_def)

subsection \<open>The inlet profile\<close>

lemma inlet_boundary_condition:
  assumes "set_boundary_conditions g s = Inr s'"
  shows "\<exists>cylinder_bc outlet_bc vel_inlet wall_bc lo hi.
           BCs s' = BCs s @ [cylinder_bc, outlet_bc,
              Regularized (bb_left (boundingBoxIndices s)) ''velocity'' vel_inlet, wall_bc] \<and>
           bb_left (boundingBoxIndices s) \<noteq> [] \<and>
           lo = Min (set (map (\<lambda>p. int (snd p)) (bb_left (boundingBoxIndices s)))) \<and>
           hi = Max (set (map (\<lambda>p. int (snd p)) (bb_left (boundingBoxIndices s)))) \<and>
           length vel_inlet = length (bb_left (boundingBoxIndices s)) \<and>
           (\<forall>k<length (bb_left (boundingBoxIndices s)).
              \<exists>v. poiseuille_value (real (snd (bb_left (boundingBoxIndices s) ! k)))
                     (real_of_int lo) (real_of_int (hi - lo)) (3 / 2 * prescribed_vel g) = Inr v \<and>
                   vel_inlet ! k = [v, 0])"
proof -
  let ?inlet = "bb_left (boundingBoxIndices s)"
  from set_boundary_conditions_Inr[OF assms] obtain yy_inlet lo hi profile where
    ig: "index_grid (reshape2 (nx s) (ny s) (map (\<lambda>p. int (snd p)) (coord (nx s) (ny s)))) ?inlet
           = Inr yy_inlet"
    and lo: "np_min yy_inlet = Inr lo" and hi: "np_max yy_inlet = Inr hi"
    and pr: "poiseuille_profile (map real_of_int yy_inlet) (real_of_int lo) (real_of_int (hi - lo))
              (3.0 / 2.0 * prescribed_vel g) = Inr profile"
    and s': "s' = s\<lparr>BCs := BCs s @
            [InterpolatedBounceBackBouzidi (cylinder_indices g (coord (nx s) (ny s)))
               (implicit_distance g (nx s) (ny s) (coord (nx s) (ny s))),
             ExtrapolationOutflow (bb_right (boundingBoxIndices s)),
             Regularized ?inlet ''velocity'' (inlet_velocity ?inlet profile),
             Regularized (bb_top (boundingBoxIndices s) @ bb_bottom (boundingBoxIndices s))
               ''velocity''
               (map (\<lambda>p. [0, 0]) (bb_top (boundingBoxIndices s) @ bb_bottom (boundingBoxIndices s)))]\<rparr>"
    by blast
  from yy_inlet_values[OF ig] have yy: "yy_inlet = map (\<lambda>p. int (snd p)) ?inlet" by simp
  note pp = poiseuille_profile_Inr[OF pr]
  from pp yy have len: "length profile = length ?inlet" by simp
  have vel: "inlet_velocity ?inlet profile = map (\<lambda>p. [p, 0]) profile"
    by (rule inlet_velocity_rows[OF len])
  have rows: "\<exists>v. poiseuille_value (real (snd (?inlet ! k)))
                     (real_of_int lo) (real_of_int (hi - lo)) (3 / 2 * prescribed_vel g) = Inr v \<and>
                   inlet_velocity ?inlet profile ! k = [v, 0]" if k: "k < length ?inlet" for k
  proof -
    from pp k yy have "poiseuille_value (map real_of_int yy_inlet ! k) (real_of_int lo)
        (real_of_int (hi - lo)) (3.0 / 2.0 * prescribed_vel g) = Inr (profile ! k)"
      by simp
    moreover have "map real_of_int yy_inlet ! k = real (snd (?inlet ! k))"
      using k yy by simp
    ultimately show ?thesis using k len vel by simp
  qed
  from np_min_Inr[OF lo] np_max_Inr[OF hi] yy
  have "?inlet \<noteq> []" "lo = Min (set (map (\<lambda>p. int (snd p)) ?inlet))"
    "hi = Max (set (map (\<lambda>p. int (snd p)) ?inlet))"
    by auto
  moreover have "length (inlet_velocity ?inlet profile) = length ?inlet"
    using vel len by simp
  ultimately show ?thesis using s' rows by simp
qed

text \<open>
  Claim C6, as stated: the profile attains its maximum value \<open>umax\<close> at the midline
  \<open>y0 + d/2\<close>. With \<open>y0 = 0\<close>, \<open>d = 2\<close> and \<open>umax = -1\<close> the value at the midline \<open>y = 1\<close> is
  \<open>0\<close>, not \<open>umax\<close>.
\<close>

theorem poiseuille_maximum_counterexample:
  "poiseuille_value (0 + 2 / 2) 0 2 (- 1) = Inr 0 \<and>
   poiseuille_value (0 + 2 / 2) 0 2 (- 1) \<noteq> Inr (- 1)"
  by (simp add: poiseuille_value_def)

text \<open>
  Claim C6, amended: for \<open>d \<noteq> 0\<close> the profile \<open>max(0, 4 umax/d\<^sup>2 ((y - y0) d - (y - y0)\<^sup>2))\<close>
  is defined and non-negative at every \<open>y\<close>, vanishes at \<open>y = y0\<close> and \<open>y = y0 + d\<close> and is
  symmetric about the midline \<open>y0 + d/2\<close>; for \<open>umax \<ge> 0\<close> it is bounded by \<open>umax\<close> and takes
  the value \<open>umax\<close> at the midline. The example evaluates it at the \<open>j\<close> coordinates of the
  inlet nodes with \<open>y0\<close> their minimum, \<open>d\<close> their maximum minus their minimum and
  \<open>umax = 1.5 * prescribed_vel\<close> for the x-component of the inlet velocity, and leaves the
  y-component zero.
\<close>

theorem poiseuille_profile_properties:
  assumes "d \<noteq> 0"
  shows "(\<exists>v. poiseuille_value y y0 d umax = Inr v \<and> 0 \<le> v \<and> (0 \<le> umax \<longrightarrow> v \<le> umax)) \<and>
         poiseuille_value y0 y0 d umax = Inr 0 \<and>
         poiseuille_value (y0 + d) y0 d umax = Inr 0 \<and>
         poiseuille_value (y0 + d / 2 + t) y0 d umax = poiseuille_value (y0 + d / 2 - t) y0 d umax \<and>
         (0 \<le> umax \<longrightarrow> poiseuille_value (y0 + d / 2) y0 d umax = Inr umax) \<and>
         (set_boundary_conditions g s = Inr s' \<longrightarrow>
            (\<exists>cylinder_bc outlet_bc vel_inlet wall_bc lo hi.
               BCs s' = BCs s @ [cylinder_bc, outlet_bc,
                  Regularized (bb_left (boundingBoxIndices s)) ''velocity'' vel_inlet, wall_bc] \<and>
               lo = Min (set (map (\<lambda>p. int (snd p)) (bb_left (boundingBoxIndices s)))) \<and>
               hi = Max (set (map (\<lambda>p. int (snd p)) (bb_left (boundingBoxIndices s)))) \<and>
               length vel_inlet = length (bb_left (boundingBoxIndices s)) \<and>
               (\<forall>k<length (bb_left (boundingBoxIndices s)).
                  \<exists>v. poiseuille_value (real (snd (bb_left (boundingBoxIndices s) ! k)))
                         (real_of_int lo) (real_of_int (hi - lo)) (1.5 * prescribed_vel g) = Inr v \<and>
                       vel_inlet ! k = [v, 0])))"
proof -
  from assms obtain v where v: "poiseuille_value y y0 d umax = Inr v"
    by (simp add: poiseuille_value_def)
  have "0 \<le> v" by (rule poiseuille_value_nonneg[OF v])
  moreover have "0 \<le> umax \<longrightarrow> v \<le> umax"
    using poiseuille_value_le_umax[OF _ v] by blast
  moreover note poiseuille_value_ends[OF assms, of y0 umax]
    poiseuille_value_symmetric[of y0 d t umax]
  moreover have "0 \<le> umax \<longrightarrow> poiseuille_value (y0 + d / 2) y0 d umax = Inr umax"
    using poiseuille_value_midline[OF assms] by blast
  moreover have "set_boundary_conditions g s = Inr s' \<longrightarrow>
            (\<exists>cylinder_bc outlet_bc vel_inlet wall_bc lo hi.
               BCs s' = BCs s @ [cylinder_bc, outlet_bc,
                  Regularized (bb_left (boundingBoxIndices s)) ''velocity'' vel_inlet, wall_bc] \<and>
               lo = Min (set (map (\<lambda>p. int (snd p)) (bb_left (boundingBoxIndices s)))) \<and>
               hi = Max (set (map (\<lambda>p. int (snd p)) (bb_left (boundingBoxIndices s)))) \<and>
               length vel_inlet = length (bb_left (boundingBoxIndices s)) \<and>
               (\<forall>k<length (bb_left (boundingBoxIndices s)).
                  \<exists>v. poiseuille_value (real (snd (bb_left (boundingBoxIndices s) ! k)))
                         (real_of_int lo) (real_of_int (hi - lo)) (1.5 * prescribed_vel g) = Inr v \<and>
                       vel_inlet ! k = [v, 0]))"
  proof
    assume a: "set_boundary_conditions g s = Inr s'"
    have e: "(1.5::real) = 3 / 2" by simp
    from inlet_boundary_condition[OF a] show "\<exists>cylinder_bc outlet_bc vel_inlet wall_bc lo hi.
               BCs s' = BCs s @ [cylinder_bc, outlet_bc,
                  Regularized (bb_left (boundingBoxIndices s)) ''velocity'' vel_inlet, wall_bc] \<and>
               lo = Min (set (map (\<lambda>p. int (snd p)) (bb_left (boundingBoxIndices s)))) \<and>
               hi = Max (set (map (\<lambda>p. int (snd p)) (bb_left (boundingBoxIndices s)))) \<and>
               length vel_inlet = length (bb_left (boundingBoxIndices s)) \<and>
               (\<forall>k<length (bb_left (boundingBoxIndices s)).
                  \<exists>v. poiseuille_value (real (snd (bb_left (boundingBoxIndices s) ! k)))
                         (real_of_int lo) (real_of_int (hi - lo)) (1.5 * prescribed_vel g) = Inr v \<and>
                       vel_inlet ! k = [v, 0])"
      unfolding e by blast
  qed
  ultimately show ?thesis using v by blast
qed

text \<open>
  Claim C6 (amended) at \<open>y0 = 0\<close>, \<open>d = 2\<close>, \<open>umax = 0.36\<close> and on the small instance, whose
  inlet nodes have \<open>j = 0, 1, 2\<close>.
\<close>

theorem poiseuille_profile_properties_witness:
  "(2::real) \<noteq> 0 \<and> (0::real) \<le> 0.36 \<and>
   set_boundary_conditions small_globals small_sim = Inr (small_sim\<lparr>BCs := small_BCs\<rparr>) \<and>
   poiseuille_value 0 0 2 0.36 = Inr 0 \<and>
   poiseuille_value 2 0 2 0.36 = Inr 0 \<and>
   poiseuille_value 1 0 2 0.36 = Inr 0.36 \<and>
   (\<exists>v. poiseuille_value 0.5 0 2 0.36 = Inr v \<and> 0 \<le> v \<and> v \<le> 0.36) \<and>
   poiseuille_value 1.5 0 2 0.36 = poiseuille_value 0.5 0 2 0.36 \<and>
   (\<exists>cylinder_bc outlet_bc vel_inlet wall_bc.
      small_BCs = [cylinder_bc, outlet_bc,
        Regularized [(0, 0), (0, 1), (0, 2)] ''velocity'' vel_inlet, wall_bc] \<and>
      length vel_inlet = 3 \<and>
      (\<exists>v. poiseuille_value 1 0 2 (1.5 * 0.24) = Inr v \<and> vel_inlet ! 1 = [v, 0]))"
proof -
  have d: "(2::real) \<noteq> 0" by simp
  have u: "(0::real) \<le> 0.36" by simp
  note w = poiseuille_profile_properties[OF d, of "0.5" 0 "0.36" "0.5" small_globals small_sim
      "small_sim\<lparr>BCs := small_BCs\<rparr>"]
  from w u have p1: "poiseuille_value 0 0 2 0.36 = Inr 0" "poiseuille_value 2 0 2 0.36 = Inr 0"
    "poiseuille_value 1 0 2 0.36 = Inr 0.36"
    "\<exists>v. poiseuille_value 0.5 0 2 0.36 = Inr v \<and> 0 \<le> v \<and> v \<le> 0.36"
    "poiseuille_value 1.5 0 2 0.36 = poiseuille_value 0.5 0 2 0.36"
    by simp_all
  have bb: "boundingBoxIndices small_sim = small_box" by (simp add: small_sim_def)
  have mm: "Min (set (map (\<lambda>p. int (snd p)) (bb_left small_box))) = 0"
    "Max (set (map (\<lambda>p. int (snd p)) (bb_left small_box))) = 2"
    by (simp_all add: small_box_def)
  note w6 = w[THEN conjunct2, THEN conjunct2, THEN conjunct2, THEN conjunct2, THEN conjunct2,
      rule_format, OF small_set_boundary_conditions, unfolded bb mm]
  then obtain cylinder_bc outlet_bc vel_inlet wall_bc lo hi where
    b0: "BCs (small_sim\<lparr>BCs := small_BCs\<rparr>) = BCs small_sim @ [cylinder_bc, outlet_bc,
          Regularized (bb_left small_box) ''velocity'' vel_inlet, wall_bc]"
    and lo: "lo = 0" and hi: "hi = 2"
    and l: "length vel_inlet = length (bb_left small_box)"
    and r0: "\<forall>k<length (bb_left small_box).
              \<exists>v. poiseuille_value (real (snd (bb_left small_box ! k))) (real_of_int lo)
                     (real_of_int (hi - lo))
                     (1.5 * prescribed_vel small_globals) = Inr v \<and> vel_inlet ! k = [v, 0]"
    by blast
  from b0 have b: "small_BCs = [cylinder_bc, outlet_bc,
          Regularized (bb_left small_box) ''velocity'' vel_inlet, wall_bc]"
    by (simp add: small_sim_def)
  have "(1::nat) < length (bb_left small_box)" by (simp add: small_box_def)
  with r0 have "\<exists>v. poiseuille_value (real (snd (bb_left small_box ! 1))) (real_of_int lo)
                     (real_of_int (hi - lo))
                     (1.5 * prescribed_vel small_globals) = Inr v \<and> vel_inlet ! 1 = [v, 0]"
    by blast
  then have r: "\<exists>v. poiseuille_value 1 0 2 (1.5 * 0.24) = Inr v \<and> vel_inlet ! 1 = [v, 0]"
    by (simp add: lo hi small_box_def small_globals_def)
  from l have l3: "length vel_inlet = 3" by (simp add: small_box_def)
  from b have b3: "small_BCs = [cylinder_bc, outlet_bc,
        Regularized [(0, 0), (0, 1), (0, 2)] ''velocity'' vel_inlet, wall_bc]"
    by (simp add: small_box_def)
  from r b3 l3 have "\<exists>cylinder_bc outlet_bc vel_inlet wall_bc.
      small_BCs = [cylinder_bc, outlet_bc,
        Regularized [(0, 0), (0, 1), (0, 2)] ''velocity'' vel_inlet, wall_bc] \<and>
      length vel_inlet = 3 \<and>
      (\<exists>v. poiseuille_value 1 0 2 (1.5 * 0.24) = Inr v \<and> vel_inlet ! 1 = [v, 0])"
    by blast
  with d u p1 small_set_boundary_conditions show ?thesis by blast
qed

subsection \<open>The cylinder and its distance field\<close>

text \<open>
  Claim C9: for every grid node \<open>(i, j)\<close> with \<open>i < nx\<close> and \<open>j < ny\<close>, the node is among the
  governed indices of the cylinder's boundary condition if and only if
  \<open>(i - 2 diam)\<^sup>2 + (j - 2 diam)\<^sup>2 \<le> (diam/2)\<^sup>2\<close>, if and only if the implicit distance
  field passed with those indices is \<open>\<le> 0\<close> at \<open>(i, j)\<close>.
\<close>

theorem cylinder_indices_consistent:
  assumes "set_boundary_conditions g s = Inr s'" and "i < nx s" and "j < ny s"
  shows "\<exists>cylinder field.
           BCs s' ! length (BCs s) = InterpolatedBounceBackBouzidi cylinder field \<and>
           ((i, j) \<in> set cylinder \<longleftrightarrow>
              (real i - 2 * real_of_int (diam g))\<^sup>2 + (real j - 2 * real_of_int (diam g))\<^sup>2
                \<le> (real_of_int (diam g) / 2)\<^sup>2) \<and>
           ((real i - 2 * real_of_int (diam g))\<^sup>2 + (real j - 2 * real_of_int (diam g))\<^sup>2
                \<le> (real_of_int (diam g) / 2)\<^sup>2 \<longleftrightarrow>
              field ! i ! j \<le> 0)"
proof -
  from set_boundary_conditions_Inr[OF assms(1)] obtain profile where
    s': "s' = s\<lparr>BCs := BCs s @
            [InterpolatedBounceBackBouzidi (cylinder_indices g (coord (nx s) (ny s)))
               (implicit_distance g (nx s) (ny s) (coord (nx s) (ny s))),
             ExtrapolationOutflow (bb_right (boundingBoxIndices s)),
             Regularized (bb_left (boundingBoxIndices s)) ''velocity''
               (inlet_velocity (bb_left (boundingBoxIndices s)) profile),
             Regularized (bb_top (boundingBoxIndices s) @ bb_bottom (boundingBoxIndices s))
               ''velocity''
               (map (\<lambda>p. [0, 0]) (bb_top (boundingBoxIndices s) @ bb_bottom (boundingBoxIndices s)))]\<rparr>"
    by blast
  have sq: "sq_dist g (int i) (int j) =
      (real i - 2 * real_of_int (diam g))\<^sup>2 + (real j - 2 * real_of_int (diam g))\<^sup>2"
    by (simp add: sq_dist_def cylinder_centre_def)
  have "BCs s' ! length (BCs s) =
      InterpolatedBounceBackBouzidi (cylinder_indices g (coord (nx s) (ny s)))
        (implicit_distance g (nx s) (ny s) (coord (nx s) (ny s)))"
    using s' by simp
  moreover have "(i, j) \<in> set (cylinder_indices g (coord (nx s) (ny s))) \<longleftrightarrow>
      (real i - 2 * real_of_int (diam g))\<^sup>2 + (real j - 2 * real_of_int (diam g))\<^sup>2
        \<le> (real_of_int (diam g) / 2)\<^sup>2"
    using assms(2,3) by (simp add: cylinder_indices_mem sq)
  moreover have "(real i - 2 * real_of_int (diam g))\<^sup>2 + (real j - 2 * real_of_int (diam g))\<^sup>2
        \<le> (real_of_int (diam g) / 2)\<^sup>2 \<longleftrightarrow>
      implicit_distance g (nx s) (ny s) (coord (nx s) (ny s)) ! i ! j \<le> 0"
    by (simp add: implicit_distance_nth[OF assms(2,3)] sq)
  ultimately show ?thesis by blast
qed

text \<open>Claim C9 on the small instance, at the node \<open>(2, 2)\<close> inside the cylinder.\<close>

theorem cylinder_indices_consistent_witness:
  "set_boundary_conditions small_globals small_sim = Inr (small_sim\<lparr>BCs := small_BCs\<rparr>) \<and>
   (2::nat) < nx small_sim \<and> (2::nat) < ny small_sim \<and>
   (\<exists>cylinder field. small_BCs ! 0 = InterpolatedBounceBackBouzidi cylinder field \<and>
      (2, 2) \<in> set cylinder \<and> field ! 2 ! 2 \<le> 0)"
proof -
  have i: "(2::nat) < nx small_sim" and j: "(2::nat) < ny small_sim"
    by (simp_all add: small_sim_def)
  from cylinder_indices_consistent[OF small_set_boundary_conditions i j]
  have "\<exists>cylinder field. small_BCs ! 0 = InterpolatedBounceBackBouzidi cylinder field \<and>
      (2, 2) \<in> set cylinder \<and> field ! 2 ! 2 \<le> 0"
    by (simp add: small_sim_def small_globals_def)
  with small_set_boundary_conditions i j show ?thesis by blast
qed

subsection \<open>Drag and lift\<close>





subsection \<open>Gating and running maxima of the coefficients\<close>

lemma output_data_BCs:
  assumes "output_data lib g s kw = Inr (s', r)"
  shows "BCs s' = BCs s"
proof (cases r)
  case None
  with output_data_not_sampled[of lib g s kw s'] assms show ?thesis by auto
next
  case (Some x)
  with output_data_sampled[of lib g s kw s' x] assms show ?thesis by auto
qed

lemma Max_insert_max:
  "finite S \<Longrightarrow> Max (insert (max a b) S) = Max (insert a (insert b S))" for a :: real
  by (cases "S = {}") (simp_all add: max.assoc)

lemma run_outputs_maxima:
  assumes "run_outputs lib g s kws = Inr (s', rs)"
    and "\<forall>k\<in>set kws. timestep k \<noteq> 0"
    and "CL_max s = Some c" and "CD_max s = Some d"
  shows "CL_max s' = Some (Max (insert c (rep_cl ` set rs))) \<and>
         CD_max s' = Some (Max (insert d (rep_cd ` set rs)))"
  using assms
proof (induction kws arbitrary: s rs c d)
  case Nil
  then show ?case by simp
next
  case (Cons kw kws)
  from Cons.prems(1) obtain s1 r1 rs1 where
    o: "output_data lib g s kw = Inr (s1, r1)" and
    r: "run_outputs lib g s1 kws = Inr (s', rs1)" and
    rs: "rs = (case r1 of None \<Rightarrow> [] | Some x \<Rightarrow> [x]) @ rs1"
    by (auto split: sum.splits prod.splits)
  from Cons.prems(2) have t: "timestep kw \<noteq> 0" and ts: "\<forall>k\<in>set kws. timestep k \<noteq> 0"
    by simp_all
  show ?case
  proof (cases r1)
    case None
    with output_data_not_sampled[of lib g s kw s1] o t have "s1 = s" by simp
    with Cons.IH[OF r ts] Cons.prems(3,4) rs None show ?thesis by simp
  next
    case (Some x)
    with output_data_sampled[of lib g s kw s1 x] o t Cons.prems(3,4)
    have "CL_max s1 = Some (max c (rep_cl x))" "CD_max s1 = Some (max d (rep_cd x))"
      by auto
    from Cons.IH[OF r ts this] rs Some show ?thesis
      by (simp add: Max_insert_max)
  qed
qed

lemma small_run:
  "run_outputs small_library small_globals (small_sim\<lparr>BCs := small_BCs\<rparr>)
     [small_kwargs 0 1, small_kwargs 9 1]
   = Inr (small_sim\<lparr>BCs := small_BCs, CL_max := Some (625 / 9), CD_max := Some (625 / 18)\<rparr>,
          [\<lparr>rep_err = 0, rep_cl = 625 / 9, rep_cd = 625 / 18,
            rep_image = (9, [[[0, 0]], [[0, 1]], [[0, 0]]])\<rparr>])"
  by (simp add: small_output_0 small_output_9)

lemma small_run_neg:
  "run_outputs small_library small_globals (small_sim\<lparr>BCs := small_BCs\<rparr>)
     [small_kwargs 0 (- 1), small_kwargs 9 (- 1)]
   = Inr (small_sim\<lparr>BCs := small_BCs, CL_max := Some 0, CD_max := Some 0\<rparr>,
          [\<lparr>rep_err = 0, rep_cl = - (625 / 9), rep_cd = - (625 / 18),
            rep_image = (9, [[[0, 0]], [[0, 1]], [[0, 0]]])\<rparr>])"
  by (simp add: small_output_0 small_output_9_neg)

text \<open>
  Claim C3: lift and drag coefficients are computed (and reported) only for time steps
  strictly greater than \<open>0.8 * t_max\<close>; a call at an earlier step other than step 0
  changes nothing. Each sampled step replaces \<open>CL_max\<close> and \<open>CD_max\<close> by the maximum of the
  old value and the coefficient of that step, so over a run that starts with the call at
  step 0 the retained values are the running maxima of the sampled coefficients, from the
  initial value 0: not averages, not the last values.
\<close>

theorem coefficients_gated_running_maxima:
  assumes "output_data lib g s kw = Inr (s', r)"
  shows "(r \<noteq> None \<longleftrightarrow> real_of_int (timestep kw) > 0.8 * real_of_int (t_max g)) \<and>
         (r = None \<and> timestep kw \<noteq> 0 \<longrightarrow> s' = s) \<and>
         (\<forall>x. r = Some x \<longrightarrow>
            (\<exists>cl_max cd_max.
               (if timestep kw = 0 then Some 0 else CL_max s) = Some cl_max \<and>
               (if timestep kw = 0 then Some 0 else CD_max s) = Some cd_max \<and>
               CL_max s' = Some (max cl_max (rep_cl x)) \<and>
               CD_max s' = Some (max cd_max (rep_cd x)))) \<and>
         (\<forall>kws s'' rs. timestep kw = 0 \<and> (\<forall>k\<in>set kws. timestep k \<noteq> 0) \<and>
            run_outputs lib g s (kw # kws) = Inr (s'', rs) \<longrightarrow>
            CL_max s'' = Some (Max (insert 0 (rep_cl ` set rs))) \<and>
            CD_max s'' = Some (Max (insert 0 (rep_cd ` set rs))))"
proof -
  have gate: "r \<noteq> None \<longleftrightarrow> real_of_int (timestep kw) > 0.8 * real_of_int (t_max g)"
  proof (cases r)
    case None
    with output_data_not_sampled[of lib g s kw s'] assms show ?thesis by simp
  next
    case (Some x)
    with output_data_sampled[of lib g s kw s' x] assms show ?thesis by auto
  qed
  have idle: "r = None \<and> timestep kw \<noteq> 0 \<longrightarrow> s' = s"
    using output_data_not_sampled[of lib g s kw s'] assms by auto
  have step: "\<exists>cl_max cd_max.
               (if timestep kw = 0 then Some 0 else CL_max s) = Some cl_max \<and>
               (if timestep kw = 0 then Some 0 else CD_max s) = Some cd_max \<and>
               CL_max s' = Some (max cl_max (rep_cl x)) \<and>
               CD_max s' = Some (max cd_max (rep_cd x))" if x: "r = Some x" for x
  proof -
    from output_data_sampled[of lib g s kw s' x] assms x obtain cl_max cd_max where
      "(if timestep kw = 0 then Some 0 else CL_max s) = Some cl_max"
      "(if timestep kw = 0 then Some 0 else CD_max s) = Some cd_max"
      "s' = s\<lparr>CL_max := Some (max cl_max (rep_cl x)), CD_max := Some (max cd_max (rep_cd x))\<rparr>"
      by auto
    then show ?thesis by auto
  qed
  have run: "CL_max s'' = Some (Max (insert 0 (rep_cl ` set rs))) \<and>
             CD_max s'' = Some (Max (insert 0 (rep_cd ` set rs)))"
    if t0: "timestep kw = 0" and ts: "\<forall>k\<in>set kws. timestep k \<noteq> 0"
      and ro: "run_outputs lib g s (kw # kws) = Inr (s'', rs)" for kws s'' rs
  proof -
    from ro assms obtain rs1 where
      r1: "run_outputs lib g s' kws = Inr (s'', rs1)" and
      rs: "rs = (case r of None \<Rightarrow> [] | Some x \<Rightarrow> [x]) @ rs1"
      by (auto split: sum.splits prod.splits)
    show ?thesis
    proof (cases r)
      case None
      with output_data_not_sampled[of lib g s kw s'] assms t0
      have "CL_max s' = Some 0" "CD_max s' = Some 0" by simp_all
      from run_outputs_maxima[OF r1 ts this] rs None show ?thesis by simp
    next
      case (Some x)
      from step[OF Some] t0
      have "CL_max s' = Some (max 0 (rep_cl x))" "CD_max s' = Some (max 0 (rep_cd x))"
        by auto
      from run_outputs_maxima[OF r1 ts this] rs Some show ?thesis
        by (simp add: Max_insert_max)
    qed
  qed
  from gate idle step run show ?thesis by blast
qed

text \<open>
  Claim C3 on the small instance with \<open>t_max = 10\<close>: the call at step 0 reports nothing,
  the call at step 9 reports \<open>cl = 625/9\<close>, which becomes \<open>CL_max\<close>.
\<close>

theorem coefficients_gated_running_maxima_witness:
  "output_data small_library small_globals (small_sim\<lparr>BCs := small_BCs\<rparr>) (small_kwargs 0 1)
     = Inr (small_sim\<lparr>BCs := small_BCs, CL_max := Some 0, CD_max := Some 0\<rparr>, None) \<and>
   \<not> real_of_int (timestep (small_kwargs 0 1)) > 0.8 * real_of_int (t_max small_globals) \<and>
   output_data small_library small_globals
      (small_sim\<lparr>BCs := small_BCs, CL_max := Some 0, CD_max := Some 0\<rparr>) (small_kwargs 9 1)
     = Inr (small_sim\<lparr>BCs := small_BCs, CL_max := Some (625 / 9), CD_max := Some (625 / 18)\<rparr>,
            Some \<lparr>rep_err = 0, rep_cl = 625 / 9, rep_cd = 625 / 18,
                  rep_image = (9, [[[0, 0]], [[0, 1]], [[0, 0]]])\<rparr>) \<and>
   real_of_int (timestep (small_kwargs 9 1)) > 0.8 * real_of_int (t_max small_globals) \<and>
   CL_max (small_sim\<lparr>BCs := small_BCs, CL_max := Some (625 / 9), CD_max := Some (625 / 18)\<rparr>)
     = Some (Max (insert 0 (rep_cl ` set [\<lparr>rep_err = 0, rep_cl = 625 / 9, rep_cd = 625 / 18,
            rep_image = (9, [[[0, 0]], [[0, 1]], [[0::real, 0]]])\<rparr>])))"
proof -
  note a = coefficients_gated_running_maxima[OF small_output_0[of 1]]
  note b = coefficients_gated_running_maxima[OF small_output_9]
  from a have a1: "\<not> real_of_int (timestep (small_kwargs 0 1)) > 0.8 * real_of_int (t_max small_globals)"
    by blast
  from b have b1: "real_of_int (timestep (small_kwargs 9 1)) > 0.8 * real_of_int (t_max small_globals)"
    by blast
  have t0: "timestep (small_kwargs 0 1) = 0" and t9: "\<forall>k\<in>set [small_kwargs 9 1]. timestep k \<noteq> 0"
    by (simp_all add: small_kwargs_def)
  from a t0 t9 small_run
  have c: "CL_max (small_sim\<lparr>BCs := small_BCs, CL_max := Some (625 / 9), CD_max := Some (625 / 18)\<rparr>)
     = Some (Max (insert 0 (rep_cl ` set [\<lparr>rep_err = 0, rep_cl = 625 / 9, rep_cd = 625 / 18,
            rep_image = (9, [[[0, 0]], [[0, 1]], [[0::real, 0]]])\<rparr>])))"
    by blast
  from a1 b1 c small_output_0[of 1] small_output_9 show ?thesis by blast
qed

subsection \<open>Non-negative recorded maxima\<close>

lemma output_data_nonneg:
  assumes "output_data lib g s kw = Inr (s', r)"
    and "\<forall>c. CL_max s = Some c \<longrightarrow> 0 \<le> c" and "\<forall>c. CD_max s = Some c \<longrightarrow> 0 \<le> c"
  shows "(\<forall>c. CL_max s' = Some c \<longrightarrow> 0 \<le> c) \<and> (\<forall>c. CD_max s' = Some c \<longrightarrow> 0 \<le> c)"
proof (cases r)
  case None
  with output_data_not_sampled[of lib g s kw s'] assms show ?thesis
    by (auto split: if_splits)
next
  case (Some x)
  with output_data_sampled[of lib g s kw s' x] assms(1) obtain cl_max cd_max where
    cl: "(if timestep kw = 0 then Some 0 else CL_max s) = Some cl_max" and
    cd: "(if timestep kw = 0 then Some 0 else CD_max s) = Some cd_max" and
    s': "s' = s\<lparr>CL_max := Some (max cl_max (rep_cl x)), CD_max := Some (max cd_max (rep_cd x))\<rparr>"
    by auto
  from cl assms(2) have "0 \<le> cl_max" by (auto split: if_splits)
  moreover from cd assms(3) have "0 \<le> cd_max" by (auto split: if_splits)
  ultimately show ?thesis using s' by auto
qed

lemma run_outputs_nonneg:
  assumes "run_outputs lib g s kws = Inr (s', rs)"
    and "\<forall>c. CL_max s = Some c \<longrightarrow> 0 \<le> c" and "\<forall>c. CD_max s = Some c \<longrightarrow> 0 \<le> c"
  shows "(\<forall>c. CL_max s' = Some c \<longrightarrow> 0 \<le> c) \<and> (\<forall>c. CD_max s' = Some c \<longrightarrow> 0 \<le> c)"
  using assms
proof (induction kws arbitrary: s rs)
  case Nil
  then show ?case by simp
next
  case (Cons kw kws)
  from Cons.prems(1) obtain s1 r1 rs1 where
    o: "output_data lib g s kw = Inr (s1, r1)" and
    r: "run_outputs lib g s1 kws = Inr (s', rs1)"
    by (auto split: sum.splits prod.splits)
  from output_data_nonneg[OF o Cons.prems(2,3)]
  have "\<forall>c. CL_max s1 = Some c \<longrightarrow> 0 \<le> c" "\<forall>c. CD_max s1 = Some c \<longrightarrow> 0 \<le> c"
    by simp_all
  from Cons.IH[OF r this] show ?case .
qed

lemma output_data_lift_zero:
  assumes "output_data lib g s kw = Inr (s', r)"
    and "\<forall>x. r = Some x \<longrightarrow> rep_cl x < 0"
    and "\<forall>c. CL_max s = Some c \<longrightarrow> c = 0"
  shows "\<forall>c. CL_max s' = Some c \<longrightarrow> c = 0"
proof (cases r)
  case None
  with output_data_not_sampled[of lib g s kw s'] assms show ?thesis
    by (auto split: if_splits)
next
  case (Some x)
  with output_data_sampled[of lib g s kw s' x] assms(1) obtain cl_max cd_max where
    cl: "(if timestep kw = 0 then Some 0 else CL_max s) = Some cl_max" and
    s': "s' = s\<lparr>CL_max := Some (max cl_max (rep_cl x)), CD_max := Some (max cd_max (rep_cd x))\<rparr>"
    by auto
  from cl assms(3) have "cl_max = 0" by (auto split: if_splits)
  moreover from assms(2) Some have "rep_cl x < 0" by simp
  ultimately show ?thesis using s' by auto
qed

lemma run_outputs_lift_zero:
  assumes "run_outputs lib g s kws = Inr (s', rs)"
    and "\<forall>x\<in>set rs. rep_cl x < 0"
    and "\<forall>c. CL_max s = Some c \<longrightarrow> c = 0"
  shows "\<forall>c. CL_max s' = Some c \<longrightarrow> c = 0"
  using assms
proof (induction kws arbitrary: s rs)
  case Nil
  then show ?case by simp
next
  case (Cons kw kws)
  from Cons.prems(1) obtain s1 r1 rs1 where
    o: "output_data lib g s kw = Inr (s1, r1)" and
    r: "run_outputs lib g s1 kws = Inr (s', rs1)" and
    rs: "rs = (case r1 of None \<Rightarrow> [] | Some x \<Rightarrow> [x]) @ rs1"
    by (auto split: sum.splits prod.splits)
  from rs Cons.prems(2) have n1: "\<forall>x. r1 = Some x \<longrightarrow> rep_cl x < 0"
    and n2: "\<forall>x\<in>set rs1. rep_cl x < 0"
    by auto
  from Cons.IH[OF r n2 output_data_lift_zero[OF o n1 Cons.prems(3)]] show ?case .
qed

text \<open>
  Claim C10: the recorded maxima are never negative. Starting from a new object (no
  \<open>CL_max\<close>, no \<open>CD_max\<close>), after any sequence of calls of \<open>output_data\<close> the values the main
  block appends to \<open>CL_list\<close> and \<open>CD_list\<close> satisfy \<open>CL \<ge> 0\<close> and \<open>CD \<ge> 0\<close>; if every sampled
  lift coefficient is negative, the recorded maximum lift is 0.
\<close>

theorem recorded_maxima_nonnegative:
  assumes "CL_max s = None" and "CD_max s = None"
    and "run_outputs lib g s kws = Inr (s', rs)"
    and "recorded_maxima s' = Inr (cl, cd)"
  shows "0 \<le> cl \<and> 0 \<le> cd \<and> ((\<forall>x\<in>set rs. rep_cl x < 0) \<longrightarrow> cl = 0)"
proof -
  from assms(4) have m: "CL_max s' = Some cl" "CD_max s' = Some cd"
    by (auto simp: recorded_maxima_def split: option.splits)
  from run_outputs_nonneg[OF assms(3)] assms(1,2) m have "0 \<le> cl" "0 \<le> cd"
    by simp_all
  moreover have "(\<forall>x\<in>set rs. rep_cl x < 0) \<longrightarrow> cl = 0"
    using run_outputs_lift_zero[OF assms(3)] assms(1) m by simp
  ultimately show ?thesis by simp
qed

text \<open>
  Claim C10 on the small instance with negative forces: the sampled lift coefficient is
  \<open>- 625/9\<close> and the recorded maxima are both 0.
\<close>

theorem recorded_maxima_nonnegative_witness:
  "CL_max (small_sim\<lparr>BCs := small_BCs\<rparr>) = None \<and> CD_max (small_sim\<lparr>BCs := small_BCs\<rparr>) = None \<and>
   run_outputs small_library small_globals (small_sim\<lparr>BCs := small_BCs\<rparr>)
     [small_kwargs 0 (- 1), small_kwargs 9 (- 1)]
   = Inr (small_sim\<lparr>BCs := small_BCs, CL_max := Some 0, CD_max := Some 0\<rparr>,
          [\<lparr>rep_err = 0, rep_cl = - (625 / 9), rep_cd = - (625 / 18),
            rep_image = (9, [[[0, 0]], [[0, 1]], [[0, 0]]])\<rparr>]) \<and>
   recorded_maxima (small_sim\<lparr>BCs := small_BCs, CL_max := Some 0, CD_max := Some 0\<rparr>) = Inr (0, 0) \<and>
   rep_cl \<lparr>rep_err = 0, rep_cl = - (625 / 9), rep_cd = - (625 / 18),
            rep_image = (9, [[[0, 0]], [[0, 1]], [[0::real, 0]]])\<rparr> < 0 \<and>
   (0::real) \<le> 0 \<and> (0::real) = 0"
proof -
  have n: "CL_max (small_sim\<lparr>BCs := small_BCs\<rparr>) = None" "CD_max (small_sim\<lparr>BCs := small_BCs\<rparr>) = None"
    by (simp_all add: small_sim_def)
  have r: "recorded_maxima (small_sim\<lparr>BCs := small_BCs, CL_max := Some 0, CD_max := Some 0\<rparr>) = Inr (0, 0)"
    by (simp add: recorded_maxima_def)
  have neg: "\<forall>x\<in>set [\<lparr>rep_err = 0, rep_cl = - (625 / 9), rep_cd = - (625 / 18),
            rep_image = (9, [[[0, 0]], [[0, 1]], [[0::real, 0]]])\<rparr>]. rep_cl x < 0"
    by simp
  from recorded_maxima_nonnegative[OF n small_run_neg r] neg
  have "(0::real) \<le> 0 \<and> (0::real) = 0" by blast
  moreover have "rep_cl \<lparr>rep_err = 0, rep_cl = - (625 / 9), rep_cd = - (625 / 18),
            rep_image = (9, [[[0, 0]], [[0, 1]], [[0::real, 0]]])\<rparr> < 0"
    by simp
  ultimately show ?thesis using n small_run_neg r by blast
qed

subsection \<open>The convergence error\<close>

lemma sliced_nth: "k < length (butlast (tl xs)) \<Longrightarrow> butlast (tl xs) ! k = xs ! Suc k"
  by (simp add: nth_butlast nth_tl)

lemma sum_list_zip_nth:
  assumes "length xs = length ys"
  shows "(\<Sum>(x, y)\<leftarrow>zip xs ys. f x y) = (\<Sum>k = 0..<length ys. f (xs ! k) (ys ! k))"
proof -
  have "(\<Sum>(x, y)\<leftarrow>zip xs ys. f x y) =
      (\<Sum>k = 0..<length (zip xs ys). map (\<lambda>(x, y). f x y) (zip xs ys) ! k)"
    by (simp add: sum_list_sum_nth)
  also have "\<dots> = (\<Sum>k = 0..<length ys. f (xs ! k) (ys ! k))"
    using assms by (intro sum.cong) simp_all
  finally show ?thesis .
qed

lemma row_abs_diff_index:
  fixes pa pb :: "vec list"
  assumes "length (butlast (tl pa)) = length (butlast (tl pb))"
  shows "(\<Sum>(x, y)\<leftarrow>zip (map vec_norm (butlast (tl pa))) (map vec_norm (butlast (tl pb))). \<bar>x - y\<bar>) =
         (\<Sum>j = 1..<length pb - 1. \<bar>vec_norm (pa ! j) - vec_norm (pb ! j)\<bar>)"
proof -
  let ?n = "length (butlast (tl pb))"
  have "(\<Sum>(x, y)\<leftarrow>zip (map vec_norm (butlast (tl pa))) (map vec_norm (butlast (tl pb))). \<bar>x - y\<bar>) =
        (\<Sum>k = 0..<?n. \<bar>map vec_norm (butlast (tl pa)) ! k - map vec_norm (butlast (tl pb)) ! k\<bar>)"
    using assms by (subst sum_list_zip_nth) simp_all
  also have "\<dots> = (\<Sum>k = 0..<?n. \<bar>vec_norm (pa ! Suc k) - vec_norm (pb ! Suc k)\<bar>)"
    using assms by (intro sum.cong) (simp_all add: sliced_nth)
  also have "\<dots> = (\<Sum>j = Suc 0..<Suc ?n. \<bar>vec_norm (pa ! j) - vec_norm (pb ! j)\<bar>)"
    by (simp only: sum.shift_bounds_Suc_ivl)
  also have "\<dots> = (\<Sum>j = 1..<length pb - 1. \<bar>vec_norm (pa ! j) - vec_norm (pb ! j)\<bar>)"
  proof (cases "2 \<le> length pb")
    case True
    then have "Suc ?n = length pb - 1" by simp
    then show ?thesis by simp
  next
    case False
    then have "?n = 0" "length pb - 1 \<le> 1" by simp_all
    then show ?thesis by simp
  qed
  finally show ?thesis .
qed

lemma sum_abs_diff_index:
  assumes "sum_abs_diff (norm_axis2 (slice_inner a)) (norm_axis2 (slice_inner b)) = Inr e"
  shows "length a = length b \<and>
         e = (\<Sum>i = 0..<length b. \<Sum>j = 1..<length (b ! i) - 1.
                \<bar>vec_norm (a ! i ! j) - vec_norm (b ! i ! j)\<bar>)"
proof -
  let ?A = "norm_axis2 (slice_inner a)" and ?B = "norm_axis2 (slice_inner b)"
  from assms have ml: "map length ?A = map length ?B"
    and e: "e = (\<Sum>(ra, rb)\<leftarrow>zip ?A ?B. \<Sum>(x, y)\<leftarrow>zip ra rb. \<bar>x - y\<bar>)"
    by (auto simp: sum_abs_diff_def split: if_splits)
  from ml have "length (map length ?A) = length (map length ?B)" by simp
  then have len: "length a = length b"
    by (simp add: norm_axis2_def slice_inner_def)
  have rows: "length (butlast (tl (a ! i))) = length (butlast (tl (b ! i)))" if i: "i < length b" for i
  proof -
    from ml have "map length ?A ! i = map length ?B ! i" by simp
    with i len show ?thesis
      by (simp add: norm_axis2_def slice_inner_def)
  qed
  have "e = (\<Sum>i = 0..<length ?B. \<Sum>(x, y)\<leftarrow>zip (?A ! i) (?B ! i). \<bar>x - y\<bar>)"
    unfolding e using len
    by (subst sum_list_zip_nth) (simp_all add: norm_axis2_def slice_inner_def)
  also have "\<dots> = (\<Sum>i = 0..<length b. \<Sum>j = 1..<length (b ! i) - 1.
                \<bar>vec_norm (a ! i ! j) - vec_norm (b ! i ! j)\<bar>)"
  proof (rule sum.cong)
    show "{0..<length ?B} = {0..<length b}"
      by (simp add: norm_axis2_def slice_inner_def)
  next
    fix i assume "i \<in> {0..<length b}"
    then have i: "i < length b" by simp
    with len have AB: "?A ! i = map vec_norm (butlast (tl (a ! i)))"
      "?B ! i = map vec_norm (butlast (tl (b ! i)))"
      by (simp_all add: norm_axis2_def slice_inner_def)
    show "(\<Sum>(x, y)\<leftarrow>zip (?A ! i) (?B ! i). \<bar>x - y\<bar>) =
          (\<Sum>j = 1..<length (b ! i) - 1. \<bar>vec_norm (a ! i ! j) - vec_norm (b ! i ! j)\<bar>)"
      unfolding AB by (rule row_abs_diff_index[OF rows[OF i]])
  qed
  finally show ?thesis using len by simp
qed

text \<open>
  Claim C1, as stated: the reported \<open>err\<close> is the L1 norm of the change of the velocity
  field, the sum over all nodes and components of the absolute difference between the
  current and the previously sampled field. On the small instance the velocity at the
  node \<open>(1, 1)\<close> turns from \<open>(1, 0)\<close> to \<open>(0, 1)\<close>: the L1 norm of the change is 2, the
  reported \<open>err\<close> is 0.
\<close>

theorem convergence_error_counterexample:
  "output_data small_library small_globals
      (small_sim\<lparr>BCs := small_BCs, CL_max := Some 0, CD_max := Some 0\<rparr>) (small_kwargs 9 1)
     = Inr (small_sim\<lparr>BCs := small_BCs, CL_max := Some (625 / 9), CD_max := Some (625 / 18)\<rparr>,
            Some \<lparr>rep_err = 0, rep_cl = 625 / 9, rep_cd = 625 / 18,
                  rep_image = (9, [[[0, 0]], [[0, 1]], [[0, 0]]])\<rparr>) \<and>
   rep_err \<lparr>rep_err = 0, rep_cl = 625 / 9, rep_cd = 625 / 18,
            rep_image = (9, [[[0, 0]], [[0, 1]], [[0::real, 0]]])\<rparr>
     \<noteq> spec_l1_velocity_change (u (small_kwargs 9 1)) (u_prev (small_kwargs 9 1))"
  by (simp add: small_output_9 small_spec_l1)

text \<open>
  Claim C1, amended: at every step for which \<open>output_data\<close> reports (a step greater than
  \<open>0.8 * t_max\<close>), the reported \<open>err\<close> is the sum, over the nodes \<open>(i, j)\<close> with
  \<open>1 \<le> j < ny - 1\<close> (the slice \<open>1:-1\<close> drops the first and the last \<open>j\<close>), of the absolute
  difference between the Euclidean norms of the previously sampled and the current
  velocity vector at that node.
\<close>

theorem convergence_error_norm_difference:
  assumes "output_data lib g s kw = Inr (s', Some r)"
  shows "real_of_int (timestep kw) > 0.8 * real_of_int (t_max g) \<and>
         length (u_prev kw) = length (u kw) \<and>
         rep_err r = (\<Sum>i = 0..<length (u kw). \<Sum>j = 1..<length (u kw ! i) - 1.
                        \<bar>vec_norm (u_prev kw ! i ! j) - vec_norm (u kw ! i ! j)\<bar>)"
proof -
  from output_data_sampled[OF assms] obtain err where
    t: "real_of_int (timestep kw) > 0.8 * real_of_int (t_max g)" and
    e: "sum_abs_diff (norm_axis2 (slice_inner (u_prev kw))) (norm_axis2 (slice_inner (u kw))) = Inr err"
    and r: "rep_err r = err"
    by auto
  from sum_abs_diff_index[OF e] t r show ?thesis by simp
qed

text \<open>Claim C1 (amended) on the small instance, at step 9 of 10.\<close>

theorem convergence_error_norm_difference_witness:
  "output_data small_library small_globals
      (small_sim\<lparr>BCs := small_BCs, CL_max := Some 0, CD_max := Some 0\<rparr>) (small_kwargs 9 1)
     = Inr (small_sim\<lparr>BCs := small_BCs, CL_max := Some (625 / 9), CD_max := Some (625 / 18)\<rparr>,
            Some \<lparr>rep_err = 0, rep_cl = 625 / 9, rep_cd = 625 / 18,
                  rep_image = (9, [[[0, 0]], [[0, 1]], [[0, 0]]])\<rparr>) \<and>
   (0::real) = (\<Sum>i = 0..<length (u (small_kwargs 9 1)).
                  \<Sum>j = 1..<length (u (small_kwargs 9 1) ! i) - 1.
                    \<bar>vec_norm (u_prev (small_kwargs 9 1) ! i ! j) - vec_norm (u (small_kwargs 9 1) ! i ! j)\<bar>)"
  using convergence_error_norm_difference[OF small_output_9] small_output_9
  by simp

subsection \<open>The order of the boundary conditions\<close>

lemma output_data_reads_head:
  assumes "BCs t = c # rest"
  shows "output_data lib g t kw =
     (if real_of_int (timestep kw) > 0.8 * real_of_int (t_max g) then
        (case boundary_drag_lift lib c kw of
           Inl e \<Rightarrow> Inl e
         | Inr (drag, lift) \<Rightarrow>
             if (prescribed_vel g)\<^sup>2 * real_of_int (diam g) = 0 then Inl NonFinite
             else
               (case sum_abs_diff (norm_axis2 (slice_inner (u_prev kw)))
                       (norm_axis2 (slice_inner (u kw))) of
                  Inl e \<Rightarrow> Inl e
                | Inr err \<Rightarrow>
                    (case (if timestep kw = 0 then Some 0 else CL_max t) of
                       None \<Rightarrow> Inl AttributeError
                     | Some cl_max \<Rightarrow>
                         (case (if timestep kw = 0 then Some 0 else CD_max t) of
                            None \<Rightarrow> Inl AttributeError
                          | Some cd_max \<Rightarrow>
                              Inr (t\<lparr>CL_max := Some (max cl_max
                                       (2 * lift / ((prescribed_vel g)\<^sup>2 * real_of_int (diam g)))),
                                     CD_max := Some (max cd_max
                                       (2 * drag / ((prescribed_vel g)\<^sup>2 * real_of_int (diam g))))\<rparr>,
                                   Some \<lparr>rep_err = err,
                                         rep_cl = 2 * lift / ((prescribed_vel g)\<^sup>2 * real_of_int (diam g)),
                                         rep_cd = 2 * drag / ((prescribed_vel g)\<^sup>2 * real_of_int (diam g)),
                                         rep_image = (timestep kw, slice_inner (u kw))\<rparr>)))))
      else Inr (if timestep kw = 0 then t\<lparr>CL_max := Some 0, CD_max := Some 0\<rparr> else t, None))"
  using assms unfolding output_data_def Let_def
  by (auto split: sum.splits option.splits prod.splits)

lemma run_outputs_BCs:
  "run_outputs lib g s kws = Inr (s', rs) \<Longrightarrow> BCs s' = BCs s"
proof (induction kws arbitrary: s rs)
  case Nil
  then show ?case by simp
next
  case (Cons kw kws)
  from Cons.prems obtain s1 r1 rs1 where
    o: "output_data lib g s kw = Inr (s1, r1)" and
    r: "run_outputs lib g s1 kws = Inr (s', rs1)"
    by (auto split: sum.splits prod.splits)
  from Cons.IH[OF r] output_data_BCs[OF o] show ?case by simp
qed

lemma run_outputs_reports:
  assumes "run_outputs lib g s kws = Inr (s', rs)" and "BCs s = c # rest" and "x \<in> set rs"
  shows "\<exists>kw\<in>set kws. \<exists>drag lift.
           boundary_drag_lift lib c kw = Inr (drag, lift) \<and>
           rep_cd x = 2 * drag / ((prescribed_vel g)\<^sup>2 * real_of_int (diam g)) \<and>
           rep_cl x = 2 * lift / ((prescribed_vel g)\<^sup>2 * real_of_int (diam g))"
  using assms
proof (induction kws arbitrary: s rs)
  case Nil
  then show ?case by simp
next
  case (Cons kw kws)
  from Cons.prems(1) obtain s1 r1 rs1 where
    o: "output_data lib g s kw = Inr (s1, r1)" and
    r: "run_outputs lib g s1 kws = Inr (s', rs1)" and
    rs: "rs = (case r1 of None \<Rightarrow> [] | Some y \<Rightarrow> [y]) @ rs1"
    by (auto split: sum.splits prod.splits)
  from output_data_BCs[OF o] Cons.prems(2) have b1: "BCs s1 = c # rest" by simp
  from rs Cons.prems(3) consider "r1 = Some x" | "x \<in> set rs1"
    by (auto split: option.splits)
  then show ?case
  proof cases
    case 1
    with output_data_sampled[of lib g s kw s1 x] o Cons.prems(2)
    have "\<exists>drag lift.
           boundary_drag_lift lib c kw = Inr (drag, lift) \<and>
           rep_cd x = 2 * drag / ((prescribed_vel g)\<^sup>2 * real_of_int (diam g)) \<and>
           rep_cl x = 2 * lift / ((prescribed_vel g)\<^sup>2 * real_of_int (diam g))"
      by auto
    then show ?thesis by auto
  next
    case 2
    from Cons.IH[OF r b1 2] show ?thesis by auto
  qed
qed

lemma small_Cylinder_init:
  "Cylinder_init small_globals 3 3 small_box = Inr (small_sim\<lparr>BCs := small_BCs\<rparr>)"
  using small_set_boundary_conditions by (simp add: Cylinder_init_def small_sim_def)

text \<open>
  Claim C7: the first entry of the list of boundary conditions is the body whose forces
  are tracked. After construction the list is the cylinder's
  \<open>InterpolatedBounceBackBouzidi\<close> condition followed by the outlet, the inlet and the
  walls, so the cylinder is \<open>BCs[0]\<close>. On any object with that list, \<open>output_data\<close> is
  the function of \<open>BCs[0]\<close> written out below: on a sampled step its force is that of the
  cylinder's condition and of no other entry (an exception of the force computation is the
  exception of the call, a force gives the reported coefficients), and it leaves the list
  as it is. So over a run every report carries the coefficients of the cylinder's
  condition at one of the steps.
\<close>

theorem first_boundary_condition_is_cylinder:
  assumes "Cylinder_init g m n box = Inr s0"
  shows "\<exists>cylinder field outlet inlet vel_inlet wall vel_wall.
           BCs s0 = [InterpolatedBounceBackBouzidi cylinder field, ExtrapolationOutflow outlet,
                     Regularized inlet ''velocity'' vel_inlet,
                     Regularized wall ''velocity'' vel_wall] \<and>
           cylinder = cylinder_indices g (coord m n) \<and>
           field = implicit_distance g m n (coord m n) \<and>
           BCs s0 ! 0 = InterpolatedBounceBackBouzidi cylinder field \<and>
           (\<forall>lib g' t kw.
              BCs t = BCs s0 \<longrightarrow>
                output_data lib g' t kw =
                (if real_of_int (timestep kw) > 0.8 * real_of_int (t_max g') then
                   (case boundary_drag_lift lib (InterpolatedBounceBackBouzidi cylinder field) kw of
                      Inl e \<Rightarrow> Inl e
                    | Inr (drag, lift) \<Rightarrow>
                        if (prescribed_vel g')\<^sup>2 * real_of_int (diam g') = 0 then Inl NonFinite
                        else
                          (case sum_abs_diff (norm_axis2 (slice_inner (u_prev kw)))
                                  (norm_axis2 (slice_inner (u kw))) of
                             Inl e \<Rightarrow> Inl e
                           | Inr err \<Rightarrow>
                               (case (if timestep kw = 0 then Some 0 else CL_max t) of
                                  None \<Rightarrow> Inl AttributeError
                                | Some cl_max \<Rightarrow>
                                    (case (if timestep kw = 0 then Some 0 else CD_max t) of
                                       None \<Rightarrow> Inl AttributeError
                                     | Some cd_max \<Rightarrow>
                                         Inr (t\<lparr>CL_max := Some (max cl_max
                                                  (2 * lift / ((prescribed_vel g')\<^sup>2 * real_of_int (diam g')))),
                                                CD_max := Some (max cd_max
                                                  (2 * drag / ((prescribed_vel g')\<^sup>2 * real_of_int (diam g'))))\<rparr>,
                                              Some \<lparr>rep_err = err,
                                                    rep_cl = 2 * lift / ((prescribed_vel g')\<^sup>2 * real_of_int (diam g')),
                                                    rep_cd = 2 * drag / ((prescribed_vel g')\<^sup>2 * real_of_int (diam g')),
                                                    rep_image = (timestep kw, slice_inner (u kw))\<rparr>)))))
                 else Inr (if timestep kw = 0 then t\<lparr>CL_max := Some 0, CD_max := Some 0\<rparr> else t, None))) \<and>
           (\<forall>lib g' t kw t' r.
              BCs t = BCs s0 \<and> output_data lib g' t kw = Inr (t', r) \<longrightarrow> BCs t' = BCs s0) \<and>
           (\<forall>lib g' kws t' rs.
              run_outputs lib g' s0 kws = Inr (t', rs) \<longrightarrow>
              BCs t' = BCs s0 \<and>
              (\<forall>x\<in>set rs. \<exists>kw\<in>set kws. \<exists>drag lift.
                 boundary_drag_lift lib (InterpolatedBounceBackBouzidi cylinder field) kw
                   = Inr (drag, lift) \<and>
                 rep_cd x = 2 * drag / ((prescribed_vel g')\<^sup>2 * real_of_int (diam g')) \<and>
                 rep_cl x = 2 * lift / ((prescribed_vel g')\<^sup>2 * real_of_int (diam g'))))"
proof -
  let ?s = "\<lparr> nx = m, ny = n, boundingBoxIndices = box, BCs = [],
              CL_max = None, CD_max = None \<rparr>"
  from assms have sb: "set_boundary_conditions g ?s = Inr s0"
    by (simp add: Cylinder_init_def)
  let ?cyl = "InterpolatedBounceBackBouzidi (cylinder_indices g (coord m n))
               (implicit_distance g m n (coord m n))"
  from set_boundary_conditions_Inr[OF sb] obtain profile where
    b: "BCs s0 =
            [?cyl,
             ExtrapolationOutflow (bb_right box),
             Regularized (bb_left box) ''velocity'' (inlet_velocity (bb_left box) profile),
             Regularized (bb_top box @ bb_bottom box) ''velocity''
               (map (\<lambda>p. [0, 0]) (bb_top box @ bb_bottom box))]"
    by auto
  have hd0: "BCs s0 ! 0 = ?cyl" using b by simp
  have reads: "output_data lib g' t kw =
                (if real_of_int (timestep kw) > 0.8 * real_of_int (t_max g') then
                   (case boundary_drag_lift lib ?cyl kw of
                      Inl e \<Rightarrow> Inl e
                    | Inr (drag, lift) \<Rightarrow>
                        if (prescribed_vel g')\<^sup>2 * real_of_int (diam g') = 0 then Inl NonFinite
                        else
                          (case sum_abs_diff (norm_axis2 (slice_inner (u_prev kw)))
                                  (norm_axis2 (slice_inner (u kw))) of
                             Inl e \<Rightarrow> Inl e
                           | Inr err \<Rightarrow>
                               (case (if timestep kw = 0 then Some 0 else CL_max t) of
                                  None \<Rightarrow> Inl AttributeError
                                | Some cl_max \<Rightarrow>
                                    (case (if timestep kw = 0 then Some 0 else CD_max t) of
                                       None \<Rightarrow> Inl AttributeError
                                     | Some cd_max \<Rightarrow>
                                         Inr (t\<lparr>CL_max := Some (max cl_max
                                                  (2 * lift / ((prescribed_vel g')\<^sup>2 * real_of_int (diam g')))),
                                                CD_max := Some (max cd_max
                                                  (2 * drag / ((prescribed_vel g')\<^sup>2 * real_of_int (diam g'))))\<rparr>,
                                              Some \<lparr>rep_err = err,
                                                    rep_cl = 2 * lift / ((prescribed_vel g')\<^sup>2 * real_of_int (diam g')),
                                                    rep_cd = 2 * drag / ((prescribed_vel g')\<^sup>2 * real_of_int (diam g')),
                                                    rep_image = (timestep kw, slice_inner (u kw))\<rparr>)))))
                 else Inr (if timestep kw = 0 then t\<lparr>CL_max := Some 0, CD_max := Some 0\<rparr> else t, None))"
    if "BCs t = BCs s0" for lib g' t kw
    using that b by (intro output_data_reads_head) simp
  have keeps: "BCs t' = BCs s0"
    if "BCs t = BCs s0 \<and> output_data lib g' t kw = Inr (t', r)" for lib g' t kw t' r
    using that output_data_BCs[of lib g' t kw t' r] by simp
  have runs: "BCs t' = BCs s0 \<and>
              (\<forall>x\<in>set rs. \<exists>kw\<in>set kws. \<exists>drag lift.
                 boundary_drag_lift lib ?cyl kw
                   = Inr (drag, lift) \<and>
                 rep_cd x = 2 * drag / ((prescribed_vel g')\<^sup>2 * real_of_int (diam g')) \<and>
                 rep_cl x = 2 * lift / ((prescribed_vel g')\<^sup>2 * real_of_int (diam g')))"
    if ro: "run_outputs lib g' s0 kws = Inr (t', rs)" for lib g' kws t' rs
  proof -
    from run_outputs_BCs[OF ro] have "BCs t' = BCs s0" .
    moreover have "\<exists>kw\<in>set kws. \<exists>drag lift.
                 boundary_drag_lift lib ?cyl kw = Inr (drag, lift) \<and>
                 rep_cd x = 2 * drag / ((prescribed_vel g')\<^sup>2 * real_of_int (diam g')) \<and>
                 rep_cl x = 2 * lift / ((prescribed_vel g')\<^sup>2 * real_of_int (diam g'))"
      if "x \<in> set rs" for x
      by (rule run_outputs_reports[OF ro _ that]) (simp add: b)
    ultimately show ?thesis by blast
  qed
  show ?thesis
    apply (rule exI[of _ "cylinder_indices g (coord m n)"])
    apply (rule exI[of _ "implicit_distance g m n (coord m n)"])
    apply (rule exI[of _ "bb_right box"])
    apply (rule exI[of _ "bb_left box"])
    apply (rule exI[of _ "inlet_velocity (bb_left box) profile"])
    apply (rule exI[of _ "bb_top box @ bb_bottom box"])
    apply (rule exI[of _ "map (\<lambda>p. [0, 0]) (bb_top box @ bb_bottom box)"])
    apply (intro conjI allI impI)
          apply (rule b)
         apply (rule refl)
        apply (rule refl)
       apply (rule hd0)
      apply (erule reads)
     apply (erule keeps)
    apply (rule runs[THEN conjunct1], assumption)
    apply (rule runs[THEN conjunct2], assumption)
    done
qed

text \<open>
  Claim C7 on the small instance: the constructed object has the cylinder first; at step 9
  of 10 the call reports \<open>cd = 2 * 1 / (0.24\<^sup>2 * 1)\<close> and \<open>cl = 2 * 2 / (0.24\<^sup>2 * 1)\<close> from
  the cylinder's force \<open>(1, 2)\<close>, and without the post-collision populations it raises the
  \<open>KeyError\<close> of the cylinder's force computation.
\<close>

theorem first_boundary_condition_is_cylinder_witness:
  "Cylinder_init small_globals 3 3 small_box = Inr (small_sim\<lparr>BCs := small_BCs\<rparr>) \<and>
   BCs (small_sim\<lparr>BCs := small_BCs\<rparr>) ! 0 = small_cylinder \<and>
   BCs (small_sim\<lparr>BCs := small_BCs, CL_max := Some 0, CD_max := Some 0\<rparr>)
     = BCs (small_sim\<lparr>BCs := small_BCs\<rparr>) \<and>
   real_of_int (timestep (small_kwargs 9 1)) > 0.8 * real_of_int (t_max small_globals) \<and>
   boundary_drag_lift small_library small_cylinder (small_kwargs 9 1) = Inr (1, 2) \<and>
   output_data small_library small_globals
      (small_sim\<lparr>BCs := small_BCs, CL_max := Some 0, CD_max := Some 0\<rparr>) (small_kwargs 9 1)
     = Inr (small_sim\<lparr>BCs := small_BCs, CL_max := Some (625 / 9), CD_max := Some (625 / 18)\<rparr>,
            Some \<lparr>rep_err = 0, rep_cl = 625 / 9, rep_cd = 625 / 18,
                  rep_image = (9, [[[0, 0]], [[0, 1]], [[0, 0]]])\<rparr>) \<and>
   output_data small_library small_globals
      (small_sim\<lparr>BCs := small_BCs, CL_max := Some 0, CD_max := Some 0\<rparr>)
      ((small_kwargs 9 1)\<lparr>f_postcollision := None\<rparr>)
     = Inl KeyError"
proof -
  let ?t = "small_sim\<lparr>BCs := small_BCs, CL_max := Some 0, CD_max := Some 0\<rparr>"
  from first_boundary_condition_is_cylinder[OF small_Cylinder_init]
  obtain cylinder field outlet inlet vel_inlet wall vel_wall where
    b: "BCs (small_sim\<lparr>BCs := small_BCs\<rparr>) =
          [InterpolatedBounceBackBouzidi cylinder field, ExtrapolationOutflow outlet,
           Regularized inlet ''velocity'' vel_inlet, Regularized wall ''velocity'' vel_wall]" and
    h: "BCs (small_sim\<lparr>BCs := small_BCs\<rparr>) ! 0 = InterpolatedBounceBackBouzidi cylinder field" and
    reads: "\<forall>lib g' t kw.
              BCs t = BCs (small_sim\<lparr>BCs := small_BCs\<rparr>) \<longrightarrow>
                output_data lib g' t kw =
                (if real_of_int (timestep kw) > 0.8 * real_of_int (t_max g') then
                   (case boundary_drag_lift lib (InterpolatedBounceBackBouzidi cylinder field) kw of
                      Inl e \<Rightarrow> Inl e
                    | Inr (drag, lift) \<Rightarrow>
                        if (prescribed_vel g')\<^sup>2 * real_of_int (diam g') = 0 then Inl NonFinite
                        else
                          (case sum_abs_diff (norm_axis2 (slice_inner (u_prev kw)))
                                  (norm_axis2 (slice_inner (u kw))) of
                             Inl e \<Rightarrow> Inl e
                           | Inr err \<Rightarrow>
                               (case (if timestep kw = 0 then Some 0 else CL_max t) of
                                  None \<Rightarrow> Inl AttributeError
                                | Some cl_max \<Rightarrow>
                                    (case (if timestep kw = 0 then Some 0 else CD_max t) of
                                       None \<Rightarrow> Inl AttributeError
                                     | Some cd_max \<Rightarrow>
                                         Inr (t\<lparr>CL_max := Some (max cl_max
                                                  (2 * lift / ((prescribed_vel g')\<^sup>2 * real_of_int (diam g')))),
                                                CD_max := Some (max cd_max
                                                  (2 * drag / ((prescribed_vel g')\<^sup>2 * real_of_int (diam g'))))\<rparr>,
                                              Some \<lparr>rep_err = err,
                                                    rep_cl = 2 * lift / ((prescribed_vel g')\<^sup>2 * real_of_int (diam g')),
                                                    rep_cd = 2 * drag / ((prescribed_vel g')\<^sup>2 * real_of_int (diam g')),
                                                    rep_image = (timestep kw, slice_inner (u kw))\<rparr>)))))
                 else Inr (if timestep kw = 0 then t\<lparr>CL_max := Some 0, CD_max := Some 0\<rparr> else t, None))"
    apply (elim exE conjE)
    apply (rule that)
      apply assumption
     apply assumption
    apply assumption
    done
  from h have cyl: "InterpolatedBounceBackBouzidi cylinder field = small_cylinder"
    by (simp add: small_BCs_def)
  have h0: "BCs (small_sim\<lparr>BCs := small_BCs\<rparr>) ! 0 = small_cylinder"
    using h cyl by simp
  have bt: "BCs ?t = BCs (small_sim\<lparr>BCs := small_BCs\<rparr>)" by simp
  have ts: "real_of_int (timestep (small_kwargs 9 1)) > 0.8 * real_of_int (t_max small_globals)"
    by (simp add: small_kwargs_def small_globals_def)
  have dl: "boundary_drag_lift small_library small_cylinder (small_kwargs 9 1) = Inr (1, 2)"
    using small_drag_lift[of 9 1] by simp
  have o1: "output_data small_library small_globals ?t (small_kwargs 9 1)
     = Inr (small_sim\<lparr>BCs := small_BCs, CL_max := Some (625 / 9), CD_max := Some (625 / 18)\<rparr>,
            Some \<lparr>rep_err = 0, rep_cl = 625 / 9, rep_cd = 625 / 18,
                  rep_image = (9, [[[0, 0]], [[0, 1]], [[0, 0]]])\<rparr>)"
    unfolding reads[rule_format, OF bt] cyl
    by (simp add: ts dl small_err)
       (simp add: small_globals_def small_kwargs_def slice_inner_def zero_row_def
          small_sim_def power2_eq_square)
  have ts': "real_of_int (timestep ((small_kwargs 9 1)\<lparr>f_postcollision := None\<rparr>))
      > 0.8 * real_of_int (t_max small_globals)"
    by (simp add: small_kwargs_def small_globals_def)
  have dl': "boundary_drag_lift small_library small_cylinder
      ((small_kwargs 9 1)\<lparr>f_postcollision := None\<rparr>) = Inl KeyError"
    by (simp add: boundary_drag_lift_def momentum_exchange_force_def small_cylinder_def)
  have o2: "output_data small_library small_globals ?t ((small_kwargs 9 1)\<lparr>f_postcollision := None\<rparr>)
     = Inl KeyError"
    unfolding reads[rule_format, OF bt] cyl
    by (simp only: ts' dl' if_True sum.case)
  from small_Cylinder_init h0 bt ts dl o1 o2 show ?thesis by blast
qed

end
